theory Spec2Isabelle
  imports Complex_Main
begin

section \<open>The OCR session controller of \<^verbatim>\<open>app.py\<close>\<close>

text \<open>
  \<^verbatim>\<open>app.py\<close> is a Streamlit script: the framework executes the whole file from top to
  bottom once for every user interaction, and \<^verbatim>\<open>st.session_state\<close> is the only thing
  that survives from one execution to the next. The embedding below follows lines 84 to
  240 of the file statement by statement. One execution of the script is the function
  \<open>script\<close>; it takes
  \<^item> the values the widgets return in that execution (\<open>widgets\<close>),
  \<^item> the external libraries (\<open>env\<close>): pdf2image and mlx_vlm, each call either raising
    an exception or returning a value,
  \<^item> the state: the session dictionary, the files of the temporary directory, the
    elements drawn so far, the external calls made so far and the control status.

  In \<open>script\<close> the write of the upload to the temporary file (line 117) returns; the
  execution in which it raises is \<open>script_with_write\<close>, at the end of this section.

  The page chrome (page configuration, title, the captions of the sidebar, the footer)
  draws constant elements and is left out; the two sidebar widgets the rest of the
  script reads (\<^verbatim>\<open>model_name\<close>, \<^verbatim>\<open>ocr_prompt\<close>) are fields of \<open>widgets\<close>. The
  pictographs at the start of the labels are not ASCII and are dropped from the strings.
\<close>

subsection \<open>Python values, exceptions, the session dictionary\<close>

text \<open>Objects of the external libraries are opaque; they are identified by a number.\<close>

datatype image = Image nat
datatype model = Model nat
datatype processor = Processor nat
datatype config = Config nat

type_synonym bytes = string
type_synonym path = nat

text \<open>The script only ever uses \<^verbatim>\<open>str(e)\<close> of an exception it catches.\<close>

datatype exn = Exception string

fun str :: "exn \<Rightarrow> string" where
  "str (Exception m) = m"

datatype pyval =
    PNone
  | PBool bool
  | PInt int
  | PStr string
  | PImage image
  | PModel model
  | PProcessor processor
  | PConfig config

text \<open>Truth value testing of Python: \<^verbatim>\<open>None\<close>, \<^verbatim>\<open>False\<close>, \<^verbatim>\<open>0\<close> and the empty
  string are false, every other value here is true.\<close>

fun truthy :: "pyval \<Rightarrow> bool" where
  "truthy PNone = False"
| "truthy (PBool b) = b"
| "truthy (PInt i) = (i \<noteq> 0)"
| "truthy (PStr s) = (s \<noteq> [])"
| "truthy (PImage _) = True"
| "truthy (PModel _) = True"
| "truthy (PProcessor _) = True"
| "truthy (PConfig _) = True"

text \<open>Decimal digits of a number, for the f-strings that print a page number or a
  count.\<close>

definition digit :: "nat \<Rightarrow> char" where
  "digit d = ''0123456789'' ! d"

function string_of_nat :: "nat \<Rightarrow> string" where
  "string_of_nat n =
     (if n < 10 then [digit n] else string_of_nat (n div 10) @ [digit (n mod 10)])"
  by pat_completeness auto
termination
  by (relation "measure id") auto

declare string_of_nat.simps [simp del]

definition str_int :: "int \<Rightarrow> string" where
  "str_int i = (if i < 0 then CHR ''-'' # string_of_nat (nat (- i)) else string_of_nat (nat i))"

text \<open>What an f-string prints for a value. The script formats only a page number
  (an int) and a model name (a str, or \<^verbatim>\<open>None\<close> before the first load); the text printed
  for an opaque object is its class name here.\<close>

fun format :: "pyval \<Rightarrow> string" where
  "format PNone = ''None''"
| "format (PBool b) = (if b then ''True'' else ''False'')"
| "format (PInt i) = str_int i"
| "format (PStr s) = s"
| "format (PImage _) = ''<Image>''"
| "format (PModel _) = ''<Model>''"
| "format (PProcessor _) = ''<Processor>''"
| "format (PConfig _) = ''<Config>''"

text \<open>\<^verbatim>\<open>st.session_state\<close>: a dictionary from attribute names to values. Reading an
  attribute that is not there raises (the message of Streamlit is longer than the one
  here; the script prints it only when an extraction fails for this reason).\<close>

type_synonym session = "string \<rightharpoonup> pyval"

definition getattr :: "session \<Rightarrow> string \<Rightarrow> exn + pyval" where
  "getattr ss k =
     (case ss k of
        None \<Rightarrow> Inl (Exception (''st.session_state has no attribute '' @ k))
      | Some v \<Rightarrow> Inr v)"

text \<open>\<^verbatim>\<open>images[i]\<close> on a Python list.\<close>

definition getitem :: "'a list \<Rightarrow> int \<Rightarrow> exn + 'a" where
  "getitem xs i =
     (let n = int (length xs); j = (if i < 0 then i + n else i)
      in if 0 \<le> j \<and> j < n then Inr (xs ! nat j)
         else Inl (Exception ''list index out of range''))"

subsection \<open>The temporary directory\<close>

text \<open>The files of the temporary directory, as pairs of a path and the bytes stored
  there. \<^verbatim>\<open>NamedTemporaryFile\<close> creates a file under a name that does not exist yet.\<close>

type_synonym files = "(path \<times> bytes) list"

definition exists_path :: "files \<Rightarrow> path \<Rightarrow> bool" where
  "exists_path fs p = (p \<in> fst ` set fs)"

definition NamedTemporaryFile :: "files \<Rightarrow> path" where
  "NamedTemporaryFile fs = Suc (fold max (map fst fs) 0)"

definition write_file :: "files \<Rightarrow> path \<Rightarrow> bytes \<Rightarrow> files" where
  "write_file fs p d = (p, d) # filter (\<lambda>f. fst f \<noteq> p) fs"

definition read_file :: "files \<Rightarrow> path \<Rightarrow> bytes option" where
  "read_file fs p = map_of fs p"

definition unlink :: "files \<Rightarrow> path \<Rightarrow> files" where
  "unlink fs p = filter (\<lambda>f. fst f \<noteq> p) fs"

subsection \<open>Widgets, external libraries, state\<close>

text \<open>What the widgets return in one execution. A button returns \<^verbatim>\<open>True\<close> only
  in the execution its click triggers. \<open>page_select\<close> is the user's choice in the
  page selector, \<open>None\<close> while the user has not touched it.\<close>

record widgets =
  model_name :: string
  ocr_prompt :: string
  uploaded_file :: "bytes option"
  page_select :: "int option"
  load_model_button :: bool
  extract_text_button :: bool
  render_markdown :: bool

record generation_result =
  result_text :: string

text \<open>The external calls. \<open>convert_from_path\<close> is given what is stored at the path
  (\<open>None\<close> when the file does not exist) and the resolution.\<close>

record env =
  convert_from_path :: "bytes option \<Rightarrow> nat \<Rightarrow> exn + image list"
  mlx_load :: "string \<Rightarrow> exn + model \<times> processor"
  load_config :: "string \<Rightarrow> exn + config"
  apply_chat_template :: "pyval \<Rightarrow> pyval \<Rightarrow> string \<Rightarrow> nat \<Rightarrow> exn + string"
  generate :: "pyval \<Rightarrow> pyval \<Rightarrow> string \<Rightarrow> pyval \<Rightarrow> nat \<Rightarrow> real \<Rightarrow> bool
                 \<Rightarrow> exn + generation_result"

datatype call =
    ConvertFromPath path nat
  | MlxLoad string
  | LoadConfig string
  | ApplyChatTemplate pyval pyval string nat
  | Generate pyval pyval string pyval nat real bool

datatype element =
    FileUploader string
  | Spinner string
  | Success string
  | Error string
  | Info string
  | ExceptionBox exn
  | Selectbox string "int list"
  | ImageView image string
  | Header string
  | Button string
  | Subheader string
  | Toggle string
  | Markdown pyval
  | TextArea string pyval
  | DownloadButton string pyval string string

text \<open>\<open>Rerun\<close>: \<^verbatim>\<open>st.rerun()\<close> was called, the execution stops there and the script
  is executed again. \<open>Raised\<close>: an exception left the script.\<close>

datatype control = Running | Rerun | Raised exn

record state =
  session_state :: session
  tmp_files :: files
  ui :: "element list"
  calls :: "call list"
  control :: control

definition emit :: "element \<Rightarrow> state \<Rightarrow> state" where
  "emit e st = st\<lparr>ui := ui st @ [e]\<rparr>"

definition called :: "call \<Rightarrow> state \<Rightarrow> state" where
  "called c st = st\<lparr>calls := calls st @ [c]\<rparr>"

definition setattr :: "string \<Rightarrow> pyval \<Rightarrow> state \<Rightarrow> state" where
  "setattr k v st = st\<lparr>session_state := (session_state st)(k \<mapsto> v)\<rparr>"

definition raise :: "exn \<Rightarrow> state \<Rightarrow> state" where
  "raise e st = st\<lparr>control := Raised e\<rparr>"

text \<open>\<^verbatim>\<open>st.selectbox\<close> draws the selector and returns the chosen option; without a
  choice among the options it returns the first one (index 0).\<close>

definition selectbox :: "string \<Rightarrow> int list \<Rightarrow> int option \<Rightarrow> int" where
  "selectbox label options choice =
     (case choice of
        Some c \<Rightarrow> if c \<in> set options then c else hd options
      | None \<Rightarrow> hd options)"

subsection \<open>The script\<close>

text \<open>Lines 84 to 89: the first execution of a session creates the model attributes.\<close>

definition init_session :: "session \<Rightarrow> session" where
  "init_session ss =
     (if ss ''model'' = None
      then ss(''model'' \<mapsto> PNone, ''processor'' \<mapsto> PNone,
              ''model_loaded'' \<mapsto> PBool False, ''model_name'' \<mapsto> PNone)
      else ss)"

text \<open>Lines 92 to 99, \<^verbatim>\<open>load_vision_model\<close>: the four values returned, and the
  external calls made on the way.\<close>

definition load_vision_model ::
  "env \<Rightarrow> string \<Rightarrow> (pyval \<times> pyval \<times> pyval \<times> pyval) \<times> call list" where
  "load_vision_model env name =
     (case mlx_load env name of
        Inl e \<Rightarrow> ((PNone, PNone, PNone, PStr (str e)), [MlxLoad name])
      | Inr (m, p) \<Rightarrow>
          (case load_config env name of
             Inl e \<Rightarrow> ((PNone, PNone, PNone, PStr (str e)), [MlxLoad name, LoadConfig name])
           | Inr c \<Rightarrow>
               ((PModel m, PProcessor p, PConfig c, PNone), [MlxLoad name, LoadConfig name])))"

text \<open>Lines 121 to 143, the body of the \<^verbatim>\<open>try\<close>: the exception raised, if any, and
  the state reached.\<close>

definition pdf_try_body :: "env \<Rightarrow> widgets \<Rightarrow> path \<Rightarrow> state \<Rightarrow> exn option \<times> state" where
  "pdf_try_body env w tmp_pdf_path st =
     (let st1 = called (ConvertFromPath tmp_pdf_path 200)
                  (emit (Spinner ''Converting PDF to images...'') st)
      in case convert_from_path env (read_file (tmp_files st1) tmp_pdf_path) 200 of
           Inl e \<Rightarrow> (Some e, st1)
         | Inr images \<Rightarrow>
             (let st2 = emit (Success (''PDF loaded successfully! Found ''
                                @ str_int (int (length images)) @ '' page(s)'')) st1;
                  options = [1 .. int (length images)];
                  page_num = (if length images > 1
                              then selectbox ''Select page to OCR'' options (page_select w)
                              else 1);
                  st3 = (if length images > 1
                         then emit (Selectbox ''Select page to OCR'' options) st2
                         else st2)
              in case getitem images (page_num - 1) of
                   Inl e \<Rightarrow> (Some e, st3)
                 | Inr selected_image \<Rightarrow>
                     (None,
                      setattr ''page_num'' (PInt page_num)
                        (setattr ''current_image'' (PImage selected_image)
                           (emit (ImageView selected_image (''Page '' @ str_int page_num))
                              st3)))))"

text \<open>Lines 103 to 150: the upload section, with its \<^verbatim>\<open>except\<close> and \<^verbatim>\<open>finally\<close>.\<close>

definition upload_section :: "env \<Rightarrow> widgets \<Rightarrow> state \<Rightarrow> state" where
  "upload_section env w st0 =
     (let st = emit (FileUploader ''Choose a PDF file'') st0
      in case uploaded_file w of
           None \<Rightarrow> st
         | Some data \<Rightarrow>
             (let tmp_pdf_path = NamedTemporaryFile (tmp_files st);
                  st1 = st\<lparr>tmp_files := write_file (tmp_files st) tmp_pdf_path data\<rparr>;
                  st2 = (case pdf_try_body env w tmp_pdf_path st1 of
                           (None, st') \<Rightarrow> st'
                         | (Some e, st') \<Rightarrow>
                             emit (Error (''Error processing PDF: '' @ str e)) st')
              in if exists_path (tmp_files st2) tmp_pdf_path
                 then st2\<lparr>tmp_files := unlink (tmp_files st2) tmp_pdf_path\<rparr>
                 else st2))"

text \<open>Lines 159 to 172: what a click on Load Model does.\<close>

definition load_model_clicked :: "env \<Rightarrow> widgets \<Rightarrow> state \<Rightarrow> state" where
  "load_model_clicked env w st =
     (let st1 = emit (Spinner (''Loading model: '' @ model_name w @ ''...'')) st
      in case load_vision_model env (model_name w) of
           ((model, processor, config, error), cs) \<Rightarrow>
             (let st2 = st1\<lparr>calls := calls st1 @ cs\<rparr>
              in if truthy error
                 then emit (Info ''Make sure the model is available. You may need to download it first.'')
                        (emit (Error (''Failed to load model: '' @ format error)) st2)
                 else (emit (Success ''Model loaded successfully!'')
                         (setattr ''model_name'' (PStr (model_name w))
                            (setattr ''model_loaded'' (PBool True)
                               (setattr ''config'' config
                                  (setattr ''processor'' processor
                                     (setattr ''model'' model st2))))))
                      \<lparr>control := Rerun\<rparr>))"

text \<open>Lines 157 and 158: the Load Model button is drawn when no model is loaded or the
  loaded one is not the selected one (\<^verbatim>\<open>or\<close> reads its second operand only when the
  first is false).\<close>

definition load_model_button_block :: "env \<Rightarrow> widgets \<Rightarrow> state \<Rightarrow> state" where
  "load_model_button_block env w st =
     (let st1 = emit (Button ''Load Model'') st
      in if load_model_button w then load_model_clicked env w st1 else st1)"

definition load_model_block :: "env \<Rightarrow> widgets \<Rightarrow> state \<Rightarrow> state" where
  "load_model_block env w st =
     (case getattr (session_state st) ''model_loaded'' of
        Inl e \<Rightarrow> raise e st
      | Inr loaded \<Rightarrow>
          if \<not> truthy loaded then load_model_button_block env w st
          else (case getattr (session_state st) ''model_name'' of
                  Inl e \<Rightarrow> raise e st
                | Inr name \<Rightarrow>
                    if name \<noteq> PStr (model_name w) then load_model_button_block env w st
                    else st))"

text \<open>Lines 180 to 207, the body of the \<^verbatim>\<open>try\<close> of Extract Text. The arguments of a
  call are read from left to right before the call is made.\<close>

definition extract_try_body :: "env \<Rightarrow> widgets \<Rightarrow> state \<Rightarrow> exn option \<times> state" where
  "extract_try_body env w st0 =
     (let st = emit (Spinner ''Extracting text from image...'') st0;
          ss = session_state st
      in case getattr ss ''current_image'' of
           Inl e \<Rightarrow> (Some e, st)
         | Inr current_image \<Rightarrow>
       (case getattr ss ''processor'' of
           Inl e \<Rightarrow> (Some e, st)
         | Inr processor \<Rightarrow>
       (case getattr ss ''config'' of
           Inl e \<Rightarrow> (Some e, st)
         | Inr config \<Rightarrow>
       (let st1 = called (ApplyChatTemplate processor config (ocr_prompt w) 1) st
        in case apply_chat_template env processor config (ocr_prompt w) 1 of
           Inl e \<Rightarrow> (Some e, st1)
         | Inr formatted_prompt \<Rightarrow>
       (case getattr ss ''model'' of
           Inl e \<Rightarrow> (Some e, st1)
         | Inr model \<Rightarrow>
       (let st2 = called (Generate model processor formatted_prompt current_image 2048 (1 / 10) False)
                    st1
        in case generate env model processor formatted_prompt current_image 2048 (1 / 10) False of
           Inl e \<Rightarrow> (Some e, st2)
         | Inr result \<Rightarrow>
             (None, setattr ''output_text'' (PStr (result_text result)) st2)))))))"

text \<open>Lines 178 to 211: what a click on Extract Text does.\<close>

definition extract_clicked :: "env \<Rightarrow> widgets \<Rightarrow> state \<Rightarrow> state" where
  "extract_clicked env w st =
     (case extract_try_body env w st of
        (None, st') \<Rightarrow> st'
      | (Some e, st') \<Rightarrow>
          emit (ExceptionBox e) (emit (Error (''Error during OCR: '' @ str e)) st'))"

text \<open>Lines 214 to 236: the stored text is shown when the attribute exists and is
  true.\<close>

definition display_results :: "widgets \<Rightarrow> state \<Rightarrow> state" where
  "display_results w st =
     (case session_state st ''output_text'' of
        None \<Rightarrow> st
      | Some output_text \<Rightarrow>
          if \<not> truthy output_text then st
          else (case getattr (session_state st) ''page_num'' of
                  Inl e \<Rightarrow> raise e st
                | Inr page_num \<Rightarrow>
                    (let st1 = emit (Toggle ''Render as Markdown'')
                                 (emit (Subheader (''Extracted Text (Page '' @ format page_num
                                                    @ '')'')) st);
                         st2 = (if render_markdown w
                                then emit (Markdown output_text) st1
                                else emit (TextArea ''OCR Output'' output_text) st1)
                     in emit (DownloadButton ''Download Text'' output_text
                                (''ocr_page_'' @ format page_num @ ''.txt'') ''text/plain'')
                          st2)))"

text \<open>Lines 175 to 238.\<close>

definition ocr_block :: "env \<Rightarrow> widgets \<Rightarrow> state \<Rightarrow> state" where
  "ocr_block env w st =
     (case getattr (session_state st) ''model_loaded'' of
        Inl e \<Rightarrow> raise e st
      | Inr loaded \<Rightarrow>
          if truthy loaded
          then (case getattr (session_state st) ''model_name'' of
                  Inl e \<Rightarrow> raise e st
                | Inr name \<Rightarrow>
                    (let st1 = emit (Button ''Extract Text'')
                                 (emit (Success (''Model ready: '' @ format name)) st);
                         st2 = (if extract_text_button w then extract_clicked env w st1
                                else st1)
                     in display_results w st2))
          else emit (Info ''Click 'Load Model' to start'') st)"

text \<open>Lines 153 to 240: the results section.\<close>

definition results_section :: "env \<Rightarrow> widgets \<Rightarrow> state \<Rightarrow> state" where
  "results_section env w st0 =
     (let st = emit (Header ''OCR Results'') st0
      in if session_state st ''current_image'' \<noteq> None
         then (let st1 = load_model_block env w st
               in if control st1 = Running then ocr_block env w st1 else st1)
         else emit (Info ''Upload a PDF file to begin'') st)"

text \<open>One execution of the script.\<close>

definition script :: "env \<Rightarrow> widgets \<Rightarrow> state \<Rightarrow> state" where
  "script env w st =
     results_section env w
       (upload_section env w (st\<lparr>session_state := init_session (session_state st)\<rparr>))"

text \<open>One user interaction: the page is cleared and the script is executed; when it
  asks for a rerun it is executed once more, with the same widget values except for the
  buttons, which are back to \<^verbatim>\<open>False\<close>, and with libraries that answer as in the first
  execution. The elements on the page afterwards are those of the last execution; the
  external calls of both executions are kept.\<close>

definition interaction :: "env \<Rightarrow> widgets \<Rightarrow> state \<Rightarrow> state" where
  "interaction env w st =
     (let st1 = script env w (st\<lparr>ui := [], calls := [], control := Running\<rparr>)
      in if control st1 = Rerun
         then script env (w\<lparr>load_model_button := False, extract_text_button := False\<rparr>)
                (st1\<lparr>ui := [], control := Running\<rparr>)
         else st1)"

text \<open>A new session: an empty dictionary.\<close>

definition new_session :: state where
  "new_session = \<lparr>session_state = Map.empty, tmp_files = [], ui = [], calls = [],
                   control = Running\<rparr>"

subsection \<open>The write of line 117\<close>

text \<open>\<^verbatim>\<open>tmp_file.write(uploaded_file.read())\<close> stands before the \<^verbatim>\<open>try\<close>, inside a
  \<^verbatim>\<open>with\<close> over a file that \<^verbatim>\<open>NamedTemporaryFile(delete=False)\<close> has created already. It
  can raise (the disk is full, the upload cannot be read); the exception then leaves the
  script, and neither the \<^verbatim>\<open>try\<close> nor its \<^verbatim>\<open>finally\<close> is reached. \<open>upload_section\<close> and
  \<open>script\<close> above are the executions in which the write returns. The definitions below
  take the outcome of the write as an argument: \<open>None\<close> when it returns, the exception
  when it raises (what it had written by then is not modelled: the file is left empty).\<close>

text \<open>Lines 116 to 118: the exception raised, if any, the path, and the state.\<close>

definition save_upload :: "exn option \<Rightarrow> bytes \<Rightarrow> state \<Rightarrow> exn option \<times> path \<times> state" where
  "save_upload write_raises data st =
     (let tmp_pdf_path = NamedTemporaryFile (tmp_files st);
          created = st\<lparr>tmp_files := write_file (tmp_files st) tmp_pdf_path []\<rparr>
      in case write_raises of
           Some e \<Rightarrow> (Some e, tmp_pdf_path, created)
         | None \<Rightarrow>
             (None, tmp_pdf_path,
              created\<lparr>tmp_files := write_file (tmp_files created) tmp_pdf_path data\<rparr>))"

text \<open>Lines 120 to 150: the \<^verbatim>\<open>try\<close> with its \<^verbatim>\<open>except\<close> and \<^verbatim>\<open>finally\<close>.\<close>

definition convert_and_clean_up :: "env \<Rightarrow> widgets \<Rightarrow> path \<Rightarrow> state \<Rightarrow> state" where
  "convert_and_clean_up env w tmp_pdf_path st1 =
     (let st2 = (case pdf_try_body env w tmp_pdf_path st1 of
                   (None, st') \<Rightarrow> st'
                 | (Some e, st') \<Rightarrow> emit (Error (''Error processing PDF: '' @ str e)) st')
      in if exists_path (tmp_files st2) tmp_pdf_path
         then st2\<lparr>tmp_files := unlink (tmp_files st2) tmp_pdf_path\<rparr>
         else st2)"

text \<open>Lines 103 to 150 with the outcome of the write.\<close>

definition upload_section_with_write ::
  "exn option \<Rightarrow> env \<Rightarrow> widgets \<Rightarrow> state \<Rightarrow> state" where
  "upload_section_with_write write_raises env w st0 =
     (let st = emit (FileUploader ''Choose a PDF file'') st0
      in case uploaded_file w of
           None \<Rightarrow> st
         | Some data \<Rightarrow>
             (case save_upload write_raises data st of
                (Some e, tmp_pdf_path, st1) \<Rightarrow> raise e st1
              | (None, tmp_pdf_path, st1) \<Rightarrow> convert_and_clean_up env w tmp_pdf_path st1))"

text \<open>One execution of the script with the outcome of the write: an exception that
  leaves the upload section ends the execution.\<close>

definition script_with_write :: "exn option \<Rightarrow> env \<Rightarrow> widgets \<Rightarrow> state \<Rightarrow> state" where
  "script_with_write write_raises env w st =
     (let st1 = upload_section_with_write write_raises env w
                  (st\<lparr>session_state := init_session (session_state st)\<rparr>)
      in case control st1 of
           Raised e \<Rightarrow> st1
         | _ \<Rightarrow> results_section env w st1)"

text \<open>One user interaction with the outcomes of the write in its first execution and in
  the rerun, if there is one.\<close>

definition interaction_with_writes ::
  "exn option \<Rightarrow> exn option \<Rightarrow> env \<Rightarrow> widgets \<Rightarrow> state \<Rightarrow> state" where
  "interaction_with_writes first_raises rerun_raises env w st =
     (let st1 = script_with_write first_raises env w
                  (st\<lparr>ui := [], calls := [], control := Running\<rparr>)
      in if control st1 = Rerun
         then script_with_write rerun_raises env
                (w\<lparr>load_model_button := False, extract_text_button := False\<rparr>)
                (st1\<lparr>ui := [], control := Running\<rparr>)
         else st1)"

section \<open>Notions used in the statements\<close>

text \<open>The page the script selects among the converted pages.\<close>

definition selected_page :: "image list \<Rightarrow> int option \<Rightarrow> int" where
  "selected_page images choice =
     (if length images > 1
      then selectbox ''Select page to OCR'' [1 .. int (length images)] choice
      else 1)"

definition page_elements :: "image list \<Rightarrow> element list" where
  "page_elements images =
     [Spinner ''Converting PDF to images...'',
      Success (''PDF loaded successfully! Found '' @ str_int (int (length images)) @ '' page(s)'')]
     @ (if length images > 1 then [Selectbox ''Select page to OCR'' [1 .. int (length images)]]
        else [])"

text \<open>The session is ready when the attribute \<^verbatim>\<open>model_loaded\<close> is there and true.\<close>

definition ready :: "session \<Rightarrow> bool" where
  "ready ss = (case ss ''model_loaded'' of Some v \<Rightarrow> truthy v | None \<Rightarrow> False)"

text \<open>The condition of line 157 under which the Load Model button is drawn.\<close>

definition load_offered :: "widgets \<Rightarrow> session \<Rightarrow> bool" where
  "load_offered w ss = (\<not> ready ss \<or> ss ''model_name'' \<noteq> Some (PStr (model_name w)))"

text \<open>What holds of the session dictionary after every execution of the script: the
  model attributes exist, a page image comes with its page number, a loaded model with a
  page image and a configuration, a stored text with a loaded model. A session is either
  new or of this form.\<close>

fun is_bool :: "pyval option \<Rightarrow> bool" where
  "is_bool (Some (PBool b)) = True"
| "is_bool v = False"

fun is_int :: "pyval option \<Rightarrow> bool" where
  "is_int (Some (PInt n)) = True"
| "is_int v = False"

fun is_str :: "pyval option \<Rightarrow> bool" where
  "is_str (Some (PStr t)) = True"
| "is_str v = False"

definition good :: "session \<Rightarrow> bool" where
  "good ss \<longleftrightarrow>
     ss ''model'' \<noteq> None \<and> ss ''processor'' \<noteq> None \<and> ss ''model_name'' \<noteq> None \<and>
     is_bool (ss ''model_loaded'') \<and>
     (ss ''current_image'' \<noteq> None \<longrightarrow> is_int (ss ''page_num'')) \<and>
     (ss ''model_loaded'' = Some (PBool True) \<longrightarrow>
        ss ''current_image'' \<noteq> None \<and> ss ''config'' \<noteq> None) \<and>
     (ss ''output_text'' \<noteq> None \<longrightarrow>
        is_str (ss ''output_text'') \<and> ss ''model_loaded'' = Some (PBool True))"

text \<open>A session before the first execution of the script has none of the attributes
  the script tests.\<close>

definition fresh :: "session \<Rightarrow> bool" where
  "fresh ss \<longleftrightarrow>
     ss ''model'' = None \<and> ss ''model_loaded'' = None \<and> ss ''current_image'' = None \<and>
     ss ''output_text'' = None"

definition session_inv :: "session \<Rightarrow> bool" where
  "session_inv ss \<longleftrightarrow> fresh ss \<or> good ss"

subsection \<open>What is on the page\<close>

text \<open>The values shown by the two display widgets of the results section, each with
  the mode it is shown in (\<open>True\<close>: rendered as Markdown, \<open>False\<close>: plain text area);
  the data, file name and MIME type of the download buttons; the error messages.\<close>

fun displayed :: "element list \<Rightarrow> (bool \<times> pyval) list" where
  "displayed [] = []"
| "displayed (Markdown v # es) = (True, v) # displayed es"
| "displayed (TextArea l v # es) = (False, v) # displayed es"
| "displayed (e # es) = displayed es"

fun downloads :: "element list \<Rightarrow> (pyval \<times> string \<times> string) list" where
  "downloads [] = []"
| "downloads (DownloadButton l v f m # es) = (v, f, m) # downloads es"
| "downloads (e # es) = downloads es"

fun errors :: "element list \<Rightarrow> string list" where
  "errors [] = []"
| "errors (Error m # es) = m # errors es"
| "errors (e # es) = errors es"

text \<open>The labels of the buttons on the page.\<close>

fun buttons :: "element list \<Rightarrow> string list" where
  "buttons [] = []"
| "buttons (Button l # es) = l # buttons es"
| "buttons (e # es) = buttons es"

text \<open>The external calls that load a model, and those that run one.\<close>

fun is_load :: "call \<Rightarrow> bool" where
  "is_load (MlxLoad n) = True"
| "is_load (LoadConfig n) = True"
| "is_load c = False"

fun is_inference :: "call \<Rightarrow> bool" where
  "is_inference (ApplyChatTemplate p c s n) = True"
| "is_inference (Generate m p f i n t v) = True"
| "is_inference c = False"

text \<open>The model attributes of a session.\<close>

definition model_attrs :: "session \<Rightarrow> pyval option list" where
  "model_attrs ss =
     [ss ''model'', ss ''processor'', ss ''config'', ss ''model_loaded'', ss ''model_name'']"

text \<open>What the results section has to show for a session: the stored text, when it is
  there and true, in the mode of the toggle; and the download it has to offer.\<close>

definition shown :: "widgets \<Rightarrow> session \<Rightarrow> (bool \<times> pyval) list" where
  "shown w ss =
     (case ss ''output_text'' of
        None \<Rightarrow> []
      | Some v \<Rightarrow> if truthy v then [(render_markdown w, v)] else [])"

definition offered :: "session \<Rightarrow> (pyval \<times> string \<times> string) list" where
  "offered ss =
     (case ss ''output_text'' of
        None \<Rightarrow> []
      | Some v \<Rightarrow>
          if truthy v
          then [(v, ''ocr_page_'' @ format (the (ss ''page_num'')) @ ''.txt'', ''text/plain'')]
          else [])"

text \<open>The buttons the results section has to draw for a session: none without a page
  image, else Load Model under the condition of line 157 and Extract Text under that of
  line 175.\<close>

definition buttons_for :: "widgets \<Rightarrow> session \<Rightarrow> string list" where
  "buttons_for w ss =
     (if ss ''current_image'' = None then []
      else (if load_offered w ss then [''Load Model''] else []) @
           (if ready ss then [''Extract Text''] else []))"

text \<open>The states a session can be in: a new session, and what an interaction makes of
  a reachable state, whatever the widgets return and the libraries do.\<close>

inductive reachable :: "state \<Rightarrow> bool" where
  new: "reachable new_session"
| step: "reachable s \<Longrightarrow> reachable (interaction env w s)"

text \<open>A session under fixed libraries: the interactions of a list of widget values, one
  after the other.\<close>

definition interactions :: "env \<Rightarrow> widgets list \<Rightarrow> state \<Rightarrow> state" where
  "interactions env ws s = foldl (\<lambda>st w. interaction env w st) s ws"

text \<open>Libraries whose load failures all carry a message.\<close>

definition failures_have_message :: "env \<Rightarrow> bool" where
  "failures_have_message env \<longleftrightarrow>
     (\<forall>n e. mlx_load env n = Inl e \<longrightarrow> str e \<noteq> []) \<and>
     (\<forall>n e. load_config env n = Inl e \<longrightarrow> str e \<noteq> [])"

text \<open>A ready session holds the handle of the identifier it records: the model, the
  processor and the configuration are what the libraries return for the recorded
  \<^verbatim>\<open>model_name\<close>.\<close>

definition recorded_handle :: "env \<Rightarrow> session \<Rightarrow> bool" where
  "recorded_handle env ss =
     (if ready ss
      then (case ss ''model_name'' of
              Some (PStr n) \<Rightarrow>
                (case mlx_load env n of
                   Inr (m, p) \<Rightarrow>
                     (case load_config env n of
                        Inr c \<Rightarrow>
                          ss ''model'' = Some (PModel m) \<and>
                          ss ''processor'' = Some (PProcessor p) \<and>
                          ss ''config'' = Some (PConfig c)
                      | Inl e \<Rightarrow> False)
                 | Inl e \<Rightarrow> False)
            | _ \<Rightarrow> False)
      else True)"

subsection \<open>A concrete session\<close>

text \<open>Libraries for the examples: a PDF of three pages, one of a single page, anything
  else is not a PDF; model \<open>A\<close> loads, model \<open>E\<close> fails with an exception whose message
  is empty (as \<^verbatim>\<open>MemoryError()\<close> has), every other model fails with a message; the
  prompt \<open>bad\<close> makes the template fail, the prompt \<open>empty\<close> yields an empty text.\<close>

definition ex_env :: env where
  "ex_env =
     \<lparr>convert_from_path =
        (\<lambda>d r. if d = Some ''three pages'' then Inr [Image 1, Image 2, Image 3]
               else if d = Some ''one page'' then Inr [Image 7]
               else Inl (Exception ''not a PDF'')),
      mlx_load = (\<lambda>n. if n = ''A'' then Inr (Model 1, Processor 1)
                       else if n = ''E'' then Inl (Exception [])
                       else Inl (Exception ''not found'')),
      load_config = (\<lambda>n. Inr (Config 1)),
      apply_chat_template =
        (\<lambda>p c s n. if s = ''bad'' then Inl (Exception ''template'') else Inr s),
      generate = (\<lambda>m p f i n t v. if f = ''empty'' then Inr \<lparr>result_text = []\<rparr>
                                   else Inr \<lparr>result_text = ''hello''\<rparr>)\<rparr>"

text \<open>The same libraries without model \<open>E\<close>: every load failure has a message.\<close>

definition ex_env_msg :: env where
  "ex_env_msg =
     ex_env\<lparr>mlx_load := (\<lambda>n. if n = ''A'' then Inr (Model 1, Processor 1)
                                else Inl (Exception ''not found''))\<rparr>"

definition ex_w :: widgets where
  "ex_w = \<lparr>model_name = ''A'', ocr_prompt = ''read'', uploaded_file = Some ''three pages'',
           page_select = Some 2, load_model_button = False, extract_text_button = False,
           render_markdown = False\<rparr>"

text \<open>The session after the upload of the three pages and the choice of page 2, then
  after the load of model \<open>A\<close>, then after an extraction.\<close>

definition ex_uploaded :: state where
  "ex_uploaded =
     \<lparr>session_state = [''model'' \<mapsto> PNone, ''processor'' \<mapsto> PNone,
         ''model_loaded'' \<mapsto> PBool False, ''model_name'' \<mapsto> PNone,
         ''current_image'' \<mapsto> PImage (Image 2), ''page_num'' \<mapsto> PInt 2],
      tmp_files = [], ui = [], calls = [], control = Running\<rparr>"

definition ex_loaded :: state where
  "ex_loaded =
     \<lparr>session_state = [''model'' \<mapsto> PModel (Model 1), ''processor'' \<mapsto> PProcessor (Processor 1),
         ''config'' \<mapsto> PConfig (Config 1), ''model_loaded'' \<mapsto> PBool True,
         ''model_name'' \<mapsto> PStr ''A'',
         ''current_image'' \<mapsto> PImage (Image 2), ''page_num'' \<mapsto> PInt 2],
      tmp_files = [], ui = [], calls = [], control = Running\<rparr>"

definition ex_extracted :: state where
  "ex_extracted =
     ex_loaded\<lparr>session_state := (session_state ex_loaded)(''output_text'' \<mapsto> PStr ''hello'')\<rparr>"

section \<open>Lemmas\<close>

lemma is_bool_iff: "is_bool v \<longleftrightarrow> (\<exists>b. v = Some (PBool b))"
  by (cases v rule: is_bool.cases) simp_all

lemma is_int_iff: "is_int v \<longleftrightarrow> (\<exists>n. v = Some (PInt n))"
  by (cases v rule: is_int.cases) simp_all

lemma is_str_iff: "is_str v \<longleftrightarrow> (\<exists>t. v = Some (PStr t))"
  by (cases v rule: is_str.cases) simp_all

lemma good_iff:
  "good ss \<longleftrightarrow>
     ss ''model'' \<noteq> None \<and> ss ''processor'' \<noteq> None \<and> ss ''model_name'' \<noteq> None \<and>
     (\<exists>b. ss ''model_loaded'' = Some (PBool b)) \<and>
     (ss ''current_image'' \<noteq> None \<longrightarrow> (\<exists>n. ss ''page_num'' = Some (PInt n))) \<and>
     (ss ''model_loaded'' = Some (PBool True) \<longrightarrow>
        ss ''current_image'' \<noteq> None \<and> ss ''config'' \<noteq> None) \<and>
     (ss ''output_text'' \<noteq> None \<longrightarrow>
        (\<exists>t. ss ''output_text'' = Some (PStr t)) \<and> ss ''model_loaded'' = Some (PBool True))"
  by (simp add: good_def is_bool_iff is_int_iff is_str_iff)

lemma emit_simps [simp]:
  "session_state (emit e st) = session_state st"
  "tmp_files (emit e st) = tmp_files st"
  "calls (emit e st) = calls st"
  "control (emit e st) = control st"
  "ui (emit e st) = ui st @ [e]"
  by (simp_all add: emit_def)

lemma called_simps [simp]:
  "session_state (called c st) = session_state st"
  "tmp_files (called c st) = tmp_files st"
  "calls (called c st) = calls st @ [c]"
  "control (called c st) = control st"
  "ui (called c st) = ui st"
  by (simp_all add: called_def)

lemma setattr_simps [simp]:
  "session_state (setattr k v st) = (session_state st)(k \<mapsto> v)"
  "tmp_files (setattr k v st) = tmp_files st"
  "calls (setattr k v st) = calls st"
  "control (setattr k v st) = control st"
  "ui (setattr k v st) = ui st"
  by (simp_all add: setattr_def)

lemma raise_simps [simp]:
  "session_state (raise e st) = session_state st"
  "tmp_files (raise e st) = tmp_files st"
  "calls (raise e st) = calls st"
  "control (raise e st) = Raised e"
  "ui (raise e st) = ui st"
  by (simp_all add: raise_def)

lemma fold_max_ge: "a \<le> fold max xs (a::nat)"
  by (induction xs arbitrary: a) (auto intro: order_trans[OF max.cobounded2])

lemma fold_max_mem: "x \<in> set xs \<Longrightarrow> x \<le> fold max xs (a::nat)"
proof (induction xs arbitrary: a)
  case Nil
  then show ?case by simp
next
  case (Cons y ys)
  show ?case
  proof (cases "x = y")
    case True
    have "max y a \<le> fold max ys (max y a)" by (rule fold_max_ge)
    with True show ?thesis by simp
  next
    case False
    with Cons show ?thesis by simp
  qed
qed

lemma NamedTemporaryFile_fresh: "\<not> exists_path fs (NamedTemporaryFile fs)"
proof
  assume "exists_path fs (NamedTemporaryFile fs)"
  then have "NamedTemporaryFile fs \<in> set (map fst fs)"
    by (simp add: exists_path_def)
  then have "NamedTemporaryFile fs \<le> fold max (map fst fs) 0"
    by (rule fold_max_mem)
  then show False by (simp add: NamedTemporaryFile_def)
qed

lemma filter_fresh: "\<not> exists_path fs p \<Longrightarrow> filter (\<lambda>f. fst f \<noteq> p) fs = fs"
  by (induction fs) (auto simp: exists_path_def)

lemma unlink_write_fresh: "\<not> exists_path fs p \<Longrightarrow> unlink (write_file fs p d) p = fs"
  by (simp add: unlink_def write_file_def filter_fresh)

lemma exists_write: "exists_path (write_file fs p d) p"
  by (simp add: exists_path_def write_file_def)

lemma read_write: "read_file (write_file fs p d) p = Some d"
  by (simp add: read_file_def write_file_def)

lemma selectbox_mem: "options \<noteq> [] \<Longrightarrow> selectbox l options c \<in> set options"
  by (simp add: selectbox_def split: option.splits)

lemma selected_page_range:
  "images \<noteq> [] \<Longrightarrow> 1 \<le> selected_page images c \<and> selected_page images c \<le> int (length images)"
proof (cases "length images > 1")
  case True
  then have "[1 .. int (length images)] \<noteq> []" by auto
  from selectbox_mem[OF this, of "''Select page to OCR''" c] True
  show ?thesis by (simp add: selected_page_def)
next
  case False
  assume "images \<noteq> []"
  with False show ?thesis by (cases images) (simp_all add: selected_page_def)
qed

lemma getitem_selected:
  "images \<noteq> [] \<Longrightarrow>
   getitem images (selected_page images c - 1) = Inr (images ! nat (selected_page images c - 1))"
  using selected_page_range[of images c] by (simp add: getitem_def Let_def)

lemma pdf_try_body_raise:
  "convert_from_path env (read_file (tmp_files st) p) 200 = Inl e \<Longrightarrow>
   pdf_try_body env w p st =
     (Some e, st\<lparr>ui := ui st @ [Spinner ''Converting PDF to images...''],
                 calls := calls st @ [ConvertFromPath p 200]\<rparr>)"
  by (simp add: pdf_try_body_def emit_def called_def)

lemma pdf_try_body_empty:
  "convert_from_path env (read_file (tmp_files st) p) 200 = Inr [] \<Longrightarrow>
   pdf_try_body env w p st =
     (Some (Exception ''list index out of range''),
      st\<lparr>ui := ui st @ page_elements [], calls := calls st @ [ConvertFromPath p 200]\<rparr>)"
  by (simp add: pdf_try_body_def emit_def called_def getitem_def page_elements_def)

lemma pdf_try_body_ok:
  assumes "convert_from_path env (read_file (tmp_files st) p) 200 = Inr images"
    and "images \<noteq> []"
  shows "pdf_try_body env w p st =
     (None,
      st\<lparr>session_state := (session_state st)
             (''current_image'' \<mapsto> PImage (images ! nat (selected_page images (page_select w) - 1)),
              ''page_num'' \<mapsto> PInt (selected_page images (page_select w))),
          ui := ui st @ page_elements images @
                [ImageView (images ! nat (selected_page images (page_select w) - 1))
                   (''Page '' @ str_int (selected_page images (page_select w)))],
          calls := calls st @ [ConvertFromPath p 200]\<rparr>)"
  using assms getitem_selected[OF assms(2), of "page_select w"]
  by (simp add: pdf_try_body_def emit_def called_def setattr_def page_elements_def
      selected_page_def Let_def)

lemma upload_section_None:
  "uploaded_file w = None \<Longrightarrow>
   upload_section env w st = st\<lparr>ui := ui st @ [FileUploader ''Choose a PDF file'']\<rparr>"
  by (simp add: upload_section_def emit_def)

lemma upload_section_raise:
  assumes "uploaded_file w = Some d" and "convert_from_path env (Some d) 200 = Inl e"
  shows "upload_section env w st =
     st\<lparr>ui := ui st @ [FileUploader ''Choose a PDF file'', Spinner ''Converting PDF to images...'',
                       Error (''Error processing PDF: '' @ str e)],
        calls := calls st @ [ConvertFromPath (NamedTemporaryFile (tmp_files st)) 200]\<rparr>"
proof -
  let ?p = "NamedTemporaryFile (tmp_files st)"
  let ?st1 = "(emit (FileUploader ''Choose a PDF file'') st)
                \<lparr>tmp_files := write_file (tmp_files st) ?p d\<rparr>"
  have "convert_from_path env (read_file (tmp_files ?st1) ?p) 200 = Inl e"
    using assms(2) by (simp add: read_write)
  from pdf_try_body_raise[OF this, of w] assms(1) show ?thesis
    by (simp add: upload_section_def Let_def exists_write unlink_write_fresh
        NamedTemporaryFile_fresh emit_def)
qed

lemma upload_section_empty:
  assumes "uploaded_file w = Some d" and "convert_from_path env (Some d) 200 = Inr []"
  shows "upload_section env w st =
     st\<lparr>ui := ui st @ FileUploader ''Choose a PDF file'' # page_elements [] @
                       [Error ''Error processing PDF: list index out of range''],
        calls := calls st @ [ConvertFromPath (NamedTemporaryFile (tmp_files st)) 200]\<rparr>"
proof -
  let ?p = "NamedTemporaryFile (tmp_files st)"
  let ?st1 = "(emit (FileUploader ''Choose a PDF file'') st)
                \<lparr>tmp_files := write_file (tmp_files st) ?p d\<rparr>"
  have "convert_from_path env (read_file (tmp_files ?st1) ?p) 200 = Inr []"
    using assms(2) by (simp add: read_write)
  from pdf_try_body_empty[OF this, of w] assms(1) show ?thesis
    by (simp add: upload_section_def Let_def exists_write unlink_write_fresh
        NamedTemporaryFile_fresh emit_def)
qed

lemma upload_section_ok:
  assumes "uploaded_file w = Some d" and "convert_from_path env (Some d) 200 = Inr images"
    and "images \<noteq> []"
  shows "upload_section env w st =
     st\<lparr>session_state := (session_state st)
             (''current_image'' \<mapsto> PImage (images ! nat (selected_page images (page_select w) - 1)),
              ''page_num'' \<mapsto> PInt (selected_page images (page_select w))),
        ui := ui st @ FileUploader ''Choose a PDF file'' # page_elements images @
                [ImageView (images ! nat (selected_page images (page_select w) - 1))
                   (''Page '' @ str_int (selected_page images (page_select w)))],
        calls := calls st @ [ConvertFromPath (NamedTemporaryFile (tmp_files st)) 200]\<rparr>"
proof -
  let ?p = "NamedTemporaryFile (tmp_files st)"
  let ?st1 = "(emit (FileUploader ''Choose a PDF file'') st)
                \<lparr>tmp_files := write_file (tmp_files st) ?p d\<rparr>"
  have "convert_from_path env (read_file (tmp_files ?st1) ?p) 200 = Inr images"
    using assms(2) by (simp add: read_write)
  from pdf_try_body_ok[OF this assms(3), of w] assms(1) show ?thesis
    by (simp add: upload_section_def Let_def exists_write unlink_write_fresh
        NamedTemporaryFile_fresh emit_def)
qed

text \<open>The upload section changes nothing but the page attributes, the page and the
  log of calls.\<close>

lemma upload_section_cases:
  obtains (same) es cs where
      "upload_section env w st = st\<lparr>ui := ui st @ es, calls := calls st @ cs\<rparr>"
    | (page) es cs img n where
      "upload_section env w st =
         st\<lparr>session_state := (session_state st)(''current_image'' \<mapsto> PImage img,
                                                  ''page_num'' \<mapsto> PInt n),
            ui := ui st @ es, calls := calls st @ cs\<rparr>"
proof (cases "uploaded_file w")
  case None
  from upload_section_None[OF this, of env st]
  have "upload_section env w st =
          st\<lparr>ui := ui st @ [FileUploader ''Choose a PDF file''], calls := calls st @ []\<rparr>"
    by simp
  then show ?thesis by (rule same)
next
  case (Some d)
  show ?thesis
  proof (cases "convert_from_path env (Some d) 200")
    case (Inl e)
    from upload_section_raise[OF Some Inl, of st] show ?thesis by (rule same)
  next
    case (Inr images)
    show ?thesis
    proof (cases "images = []")
      case True
      with Inr have "convert_from_path env (Some d) 200 = Inr []" by simp
      from upload_section_empty[OF Some this, of st] show ?thesis by (rule same)
    next
      case False
      from upload_section_ok[OF Some Inr False, of st] show ?thesis by (rule page)
    qed
  qed
qed

lemma init_session_good: "good ss \<Longrightarrow> init_session ss = ss"
  by (auto simp: good_iff init_session_def)

lemma good_init_session: "session_inv ss \<Longrightarrow> good (init_session ss)"
  by (auto simp: session_inv_def fresh_def good_iff init_session_def)

lemma load_vision_model_ok:
  "mlx_load env n = Inr (m, p) \<Longrightarrow> load_config env n = Inr c \<Longrightarrow>
   load_vision_model env n = ((PModel m, PProcessor p, PConfig c, PNone), [MlxLoad n, LoadConfig n])"
  by (simp add: load_vision_model_def)

lemma load_vision_model_cases:
  obtains (ok) m p c where "mlx_load env n = Inr (m, p)" "load_config env n = Inr c"
      "load_vision_model env n =
         ((PModel m, PProcessor p, PConfig c, PNone), [MlxLoad n, LoadConfig n])"
    | (fail) e cs where "mlx_load env n = Inl e \<or> (\<exists>h. mlx_load env n = Inr h \<and> load_config env n = Inl e)"
      "load_vision_model env n = ((PNone, PNone, PNone, PStr (str e)), cs)"
      "set cs \<subseteq> {MlxLoad n, LoadConfig n}"
  by (cases "mlx_load env n"; cases "load_config env n")
     (auto simp: load_vision_model_def split: prod.splits)

lemma load_model_clicked_error:
  "load_vision_model env (model_name w) = ((m, p, c, er), cs) \<Longrightarrow> truthy er \<Longrightarrow>
   load_model_clicked env w st =
     st\<lparr>ui := ui st @ [Spinner (''Loading model: '' @ model_name w @ ''...''),
                       Error (''Failed to load model: '' @ format er),
                       Info ''Make sure the model is available. You may need to download it first.''],
        calls := calls st @ cs\<rparr>"
  by (simp add: load_model_clicked_def emit_def)

lemma load_model_clicked_else:
  "load_vision_model env (model_name w) = ((m, p, c, er), cs) \<Longrightarrow> \<not> truthy er \<Longrightarrow>
   load_model_clicked env w st =
     st\<lparr>session_state := (session_state st)
            (''model'' \<mapsto> m, ''processor'' \<mapsto> p, ''config'' \<mapsto> c,
             ''model_loaded'' \<mapsto> PBool True, ''model_name'' \<mapsto> PStr (model_name w)),
        ui := ui st @ [Spinner (''Loading model: '' @ model_name w @ ''...''),
                       Success ''Model loaded successfully!''],
        calls := calls st @ cs, control := Rerun\<rparr>"
  by (simp add: load_model_clicked_def emit_def setattr_def)

lemma load_model_block_eq:
  assumes "good (session_state st)"
  shows "load_model_block env w st =
     (if load_offered w (session_state st)
      then (if load_model_button w then load_model_clicked env w (emit (Button ''Load Model'') st)
            else emit (Button ''Load Model'') st)
      else st)"
  using assms
  by (auto simp: good_iff load_model_block_def load_model_button_block_def load_offered_def
      ready_def getattr_def)

lemma display_results_eq:
  assumes "session_state st ''page_num'' = Some n"
  shows "display_results w st =
     (case session_state st ''output_text'' of
        None \<Rightarrow> st
      | Some v \<Rightarrow>
          if truthy v
          then st\<lparr>ui := ui st @
                 [Subheader (''Extracted Text (Page '' @ format n @ '')''),
                  Toggle ''Render as Markdown'',
                  (if render_markdown w then Markdown v else TextArea ''OCR Output'' v),
                  DownloadButton ''Download Text'' v (''ocr_page_'' @ format n @ ''.txt'')
                    ''text/plain'']\<rparr>
          else st)"
  using assms
  by (simp add: display_results_def getattr_def emit_def Let_def split: option.splits)

lemma extract_clicked_frame:
  "tmp_files (extract_clicked env w st) = tmp_files st"
  "control (extract_clicked env w st) = control st"
  "k \<noteq> ''output_text'' \<Longrightarrow> session_state (extract_clicked env w st) k = session_state st k"
  by (simp_all add: extract_clicked_def extract_try_body_def Let_def
      split: sum.splits prod.splits option.splits)

lemma ocr_block_eq:
  assumes "good (session_state st)"
  shows "ocr_block env w st =
     (if ready (session_state st)
      then display_results w
             ((if extract_text_button w then extract_clicked env w else id)
                (emit (Button ''Extract Text'')
                   (emit (Success (''Model ready: '' @ format (the (session_state st ''model_name''))))
                      st)))
      else emit (Info ''Click 'Load Model' to start'') st)"
  using assms
  by (auto simp: good_iff ocr_block_def ready_def getattr_def Let_def)

lemma extract_clicked_ok:
  assumes "session_state st ''current_image'' = Some img"
    and "session_state st ''processor'' = Some p"
    and "session_state st ''config'' = Some c"
    and "session_state st ''model'' = Some m"
    and "apply_chat_template env p c (ocr_prompt w) 1 = Inr fp"
    and "generate env m p fp img 2048 (1 / 10) False = Inr r"
  shows "extract_clicked env w st =
     st\<lparr>session_state := (session_state st)(''output_text'' \<mapsto> PStr (result_text r)),
        ui := ui st @ [Spinner ''Extracting text from image...''],
        calls := calls st @ [ApplyChatTemplate p c (ocr_prompt w) 1,
                             Generate m p fp img 2048 (1 / 10) False]\<rparr>"
  using assms
  by (simp add: extract_clicked_def extract_try_body_def getattr_def emit_def called_def
      setattr_def)

lemma extract_clicked_template_raise:
  assumes "session_state st ''current_image'' = Some img"
    and "session_state st ''processor'' = Some p"
    and "session_state st ''config'' = Some c"
    and "apply_chat_template env p c (ocr_prompt w) 1 = Inl e"
  shows "extract_clicked env w st =
     st\<lparr>ui := ui st @ [Spinner ''Extracting text from image...'',
                       Error (''Error during OCR: '' @ str e), ExceptionBox e],
        calls := calls st @ [ApplyChatTemplate p c (ocr_prompt w) 1]\<rparr>"
  using assms
  by (simp add: extract_clicked_def extract_try_body_def getattr_def emit_def called_def)

lemma extract_clicked_generate_raise:
  assumes "session_state st ''current_image'' = Some img"
    and "session_state st ''processor'' = Some p"
    and "session_state st ''config'' = Some c"
    and "session_state st ''model'' = Some m"
    and "apply_chat_template env p c (ocr_prompt w) 1 = Inr fp"
    and "generate env m p fp img 2048 (1 / 10) False = Inl e"
  shows "extract_clicked env w st =
     st\<lparr>ui := ui st @ [Spinner ''Extracting text from image...'',
                       Error (''Error during OCR: '' @ str e), ExceptionBox e],
        calls := calls st @ [ApplyChatTemplate p c (ocr_prompt w) 1,
                             Generate m p fp img 2048 (1 / 10) False]\<rparr>"
  using assms
  by (simp add: extract_clicked_def extract_try_body_def getattr_def emit_def called_def)

lemma extract_clicked_session:
  "session_state (extract_clicked env w st) = session_state st \<or>
   (\<exists>t. session_state (extract_clicked env w st) =
          (session_state st)(''output_text'' \<mapsto> PStr t))"
  by (auto simp: extract_clicked_def extract_try_body_def Let_def
      split: sum.splits prod.splits option.splits)

lemma display_results_frame [simp]:
  "session_state (display_results w st) = session_state st"
  "tmp_files (display_results w st) = tmp_files st"
  "calls (display_results w st) = calls st"
  by (simp_all add: display_results_def Let_def split: option.splits sum.splits)

lemma display_results_control:
  "session_state st ''page_num'' \<noteq> None \<Longrightarrow> control (display_results w st) = control st"
  by (auto simp: display_results_def getattr_def Let_def split: option.splits sum.splits)

lemma good_upload_section:
  "good (session_state st) \<Longrightarrow> good (session_state (upload_section env w st))"
  by (rule upload_section_cases[of env w st]) (auto simp: good_iff)

lemma good_load_model_block:
  assumes "good (session_state st)" and "session_state st ''current_image'' \<noteq> None"
  shows "good (session_state (load_model_block env w st))"
proof -
  obtain m p c er cs where lvm: "load_vision_model env (model_name w) = ((m, p, c, er), cs)"
    by (metis prod.exhaust)
  show ?thesis
  proof (cases "truthy er")
    case True
    from load_model_clicked_error[OF lvm True] assms show ?thesis
      by (simp add: load_model_block_eq)
  next
    case False
    from load_model_clicked_else[OF lvm False] assms show ?thesis
      by (auto simp: load_model_block_eq good_iff)
  qed
qed

lemma good_ocr_block:
  assumes "good (session_state st)" and "session_state st ''current_image'' \<noteq> None"
  shows "good (session_state (ocr_block env w st))"
proof (cases "ready (session_state st) \<and> extract_text_button w")
  case False
  with assms show ?thesis by (auto simp: ocr_block_eq)
next
  case True
  let ?st1 = "emit (Button ''Extract Text'')
             (emit (Success (''Model ready: '' @ format (the (session_state st ''model_name'')))) st)"
  have loaded: "session_state st ''model_loaded'' = Some (PBool True)"
    using True assms(1) by (auto simp: good_iff ready_def)
  have eq: "session_state (ocr_block env w st) = session_state (extract_clicked env w ?st1)"
    using True assms(1) by (simp add: ocr_block_eq)
  from extract_clicked_session[of env w ?st1] show ?thesis
  proof
    assume "session_state (extract_clicked env w ?st1) = session_state ?st1"
    with eq assms(1) show ?thesis by simp
  next
    assume "\<exists>t. session_state (extract_clicked env w ?st1) =
          (session_state ?st1)(''output_text'' \<mapsto> PStr t)"
    then obtain t where "session_state (extract_clicked env w ?st1) =
          (session_state st)(''output_text'' \<mapsto> PStr t)" by auto
    with eq assms loaded show ?thesis by (auto simp: good_iff)
  qed
qed

lemma load_model_block_keeps:
  assumes "good (session_state st)" and "session_state st k \<noteq> None"
  shows "session_state (load_model_block env w st) k \<noteq> None"
proof -
  obtain m p c er cs where lvm: "load_vision_model env (model_name w) = ((m, p, c, er), cs)"
    by (metis prod.exhaust)
  show ?thesis
  proof (cases "truthy er")
    case True
    from load_model_clicked_error[OF lvm True] assms show ?thesis
      by (simp add: load_model_block_eq)
  next
    case False
    from load_model_clicked_else[OF lvm False] assms show ?thesis
      by (auto simp: load_model_block_eq)
  qed
qed

lemma good_results_section:
  assumes "good (session_state st)"
  shows "good (session_state (results_section env w st))"
  using assms good_load_model_block[of "emit (Header ''OCR Results'') st" env w]
    good_ocr_block[of "load_model_block env w (emit (Header ''OCR Results'') st)" env w]
    load_model_block_keeps[of "emit (Header ''OCR Results'') st" "''current_image''" env w]
  by (auto simp: results_section_def Let_def)

lemma good_script:
  "session_inv (session_state st) \<Longrightarrow> good (session_state (script env w st))"
  by (simp add: script_def good_results_section good_upload_section good_init_session)

lemma session_inv_interaction:
  "session_inv (session_state st) \<Longrightarrow> good (session_state (interaction env w st))"
  by (simp add: interaction_def Let_def good_script session_inv_def)

lemma load_model_block_tmp_files [simp]:
  "tmp_files (load_model_block env w st) = tmp_files st"
  by (simp add: load_model_block_def load_model_button_block_def load_model_clicked_def Let_def
      split: sum.splits prod.splits)

lemma ocr_block_tmp_files [simp]:
  "tmp_files (ocr_block env w st) = tmp_files st"
  by (simp add: ocr_block_def extract_clicked_frame Let_def split: sum.splits)

lemma results_section_tmp_files [simp]:
  "tmp_files (results_section env w st) = tmp_files st"
  by (simp add: results_section_def Let_def)

lemma upload_section_tmp_files [simp]:
  "tmp_files (upload_section env w st) = tmp_files st"
  by (rule upload_section_cases[of env w st]) simp_all

lemma upload_section_calls:
  "calls (upload_section env w st) =
     calls st @ (case uploaded_file w of None \<Rightarrow> []
                 | Some d \<Rightarrow> [ConvertFromPath (NamedTemporaryFile (tmp_files st)) 200])"
proof (cases "uploaded_file w")
  case None
  then show ?thesis by (simp add: upload_section_None)
next
  case (Some d)
  show ?thesis
  proof (cases "convert_from_path env (Some d) 200")
    case (Inl e)
    from upload_section_raise[OF Some Inl, of st] Some show ?thesis by simp
  next
    case (Inr images)
    show ?thesis
    proof (cases "images = []")
      case True
      with Inr have "convert_from_path env (Some d) 200 = Inr []" by simp
      from upload_section_empty[OF Some this, of st] Some show ?thesis by simp
    next
      case False
      from upload_section_ok[OF Some Inr False, of st] Some show ?thesis by simp
    qed
  qed
qed

lemma script_tmp_files [simp]: "tmp_files (script env w st) = tmp_files st"
  by (simp add: script_def)

lemma upload_section_control [simp]:
  "control (upload_section env w st) = control st"
  by (rule upload_section_cases[of env w st]) simp_all

lemma upload_section_other:
  "k \<noteq> ''current_image'' \<Longrightarrow> k \<noteq> ''page_num'' \<Longrightarrow>
   session_state (upload_section env w st) k = session_state st k"
  by (rule upload_section_cases[of env w st]) simp_all

lemma upload_section_keeps:
  "session_state st k \<noteq> None \<Longrightarrow> session_state (upload_section env w st) k \<noteq> None"
  by (rule upload_section_cases[of env w st]) simp_all

lemma ready_cong:
  "ss ''model_loaded'' = ss' ''model_loaded'' \<Longrightarrow> ready ss = ready ss'"
  by (simp add: ready_def)

lemma load_offered_cong:
  "ss ''model_loaded'' = ss' ''model_loaded'' \<Longrightarrow> ss ''model_name'' = ss' ''model_name'' \<Longrightarrow>
   load_offered w ss = load_offered w ss'"
  by (simp add: load_offered_def ready_def)

lemma ready_init_session: "session_inv ss \<Longrightarrow> ready (init_session ss) = ready ss"
  unfolding session_inv_def
proof (elim disjE)
  assume "fresh ss"
  then show ?thesis by (simp add: fresh_def init_session_def ready_def)
next
  assume "good ss"
  then show ?thesis by (simp add: init_session_good)
qed

lemma init_session_keeps: "ss k \<noteq> None \<Longrightarrow> init_session ss k \<noteq> None"
  by (simp add: init_session_def)

lemma results_section_no_image:
  "session_state st ''current_image'' = None \<Longrightarrow>
   results_section env w st =
     emit (Info ''Upload a PDF file to begin'') (emit (Header ''OCR Results'') st)"
  by (simp add: results_section_def)

lemma results_section_no_load:
  assumes "good (session_state st)" and "session_state st ''current_image'' \<noteq> None"
    and "control st = Running"
    and "\<not> (load_offered w (session_state st) \<and> load_model_button w)"
  shows "results_section env w st =
     ocr_block env w
       ((if load_offered w (session_state st) then emit (Button ''Load Model'') else id)
          (emit (Header ''OCR Results'') st))"
  using assms by (auto simp: results_section_def load_model_block_eq)

lemma results_section_load_error:
  assumes "good (session_state st)" and "session_state st ''current_image'' \<noteq> None"
    and "control st = Running"
    and "load_offered w (session_state st)" and "load_model_button w"
    and "load_vision_model env (model_name w) = ((m, p, c, er), cs)" and "truthy er"
  shows "results_section env w st =
     ocr_block env w
       (st\<lparr>ui := ui st @ [Header ''OCR Results'', Button ''Load Model'',
                           Spinner (''Loading model: '' @ model_name w @ ''...''),
                           Error (''Failed to load model: '' @ format er),
                           Info ''Make sure the model is available. You may need to download it first.''],
           calls := calls st @ cs\<rparr>)"
  using assms load_model_clicked_error[OF assms(6,7)]
  by (simp add: results_section_def load_model_block_eq emit_def)

lemma results_section_load_else:
  assumes "good (session_state st)" and "session_state st ''current_image'' \<noteq> None"
    and "control st = Running"
    and "load_offered w (session_state st)" and "load_model_button w"
    and "load_vision_model env (model_name w) = ((m, p, c, er), cs)" and "\<not> truthy er"
  shows "results_section env w st =
     st\<lparr>session_state := (session_state st)
            (''model'' \<mapsto> m, ''processor'' \<mapsto> p, ''config'' \<mapsto> c,
             ''model_loaded'' \<mapsto> PBool True, ''model_name'' \<mapsto> PStr (model_name w)),
        ui := ui st @ [Header ''OCR Results'', Button ''Load Model'',
                       Spinner (''Loading model: '' @ model_name w @ ''...''),
                       Success ''Model loaded successfully!''],
        calls := calls st @ cs, control := Rerun\<rparr>"
  using assms load_model_clicked_else[OF assms(6,7)]
  by (simp add: results_section_def load_model_block_eq emit_def)

text \<open>The results block of a ready session.\<close>

lemma ocr_block_not_ready:
  "good (session_state st) \<Longrightarrow> \<not> ready (session_state st) \<Longrightarrow>
   ocr_block env w st = emit (Info ''Click 'Load Model' to start'') st"
  by (simp add: ocr_block_eq)

lemma ocr_block_no_extract:
  assumes "good (session_state st)" and "ready (session_state st)"
    and "\<not> extract_text_button w" and "session_state st ''model_name'' = Some name"
  shows "ocr_block env w st =
     display_results w
       (st\<lparr>ui := ui st @ [Success (''Model ready: '' @ format name), Button ''Extract Text'']\<rparr>)"
  using assms by (simp add: ocr_block_eq emit_def)

lemma ocr_block_extract:
  assumes "good (session_state st)" and "ready (session_state st)"
    and "extract_text_button w" and "session_state st ''model_name'' = Some name"
  shows "ocr_block env w st =
     display_results w
       (extract_clicked env w
          (st\<lparr>ui := ui st @ [Success (''Model ready: '' @ format name), Button ''Extract Text'']\<rparr>))"
  using assms by (simp add: ocr_block_eq emit_def)

lemma displayed_append: "displayed (xs @ ys) = displayed xs @ displayed ys"
  by (induction xs rule: displayed.induct) simp_all

lemma downloads_append: "downloads (xs @ ys) = downloads xs @ downloads ys"
  by (induction xs rule: downloads.induct) simp_all

lemma errors_append: "errors (xs @ ys) = errors xs @ errors ys"
  by (induction xs rule: errors.induct) simp_all

lemma extract_clicked_ui:
  "displayed (ui (extract_clicked env w st)) = displayed (ui st) \<and>
   downloads (ui (extract_clicked env w st)) = downloads (ui st)"
  by (simp add: extract_clicked_def extract_try_body_def Let_def displayed_append
      downloads_append split: sum.splits prod.splits option.splits)

lemma extract_clicked_calls:
  "filter is_load (calls (extract_clicked env w st)) = filter is_load (calls st)"
  by (simp add: extract_clicked_def extract_try_body_def Let_def
      split: sum.splits prod.splits option.splits)

lemma display_results_ui:
  assumes "session_state st ''page_num'' \<noteq> None"
  shows "displayed (ui (display_results w st)) = displayed (ui st) @ shown w (session_state st)"
    and "downloads (ui (display_results w st)) = downloads (ui st) @ offered (session_state st)"
  using assms
  by (auto simp: display_results_eq shown_def offered_def displayed_append downloads_append
      split: option.splits)

lemma good_page_num:
  "good ss \<Longrightarrow> ss ''current_image'' \<noteq> None \<Longrightarrow> ss ''page_num'' \<noteq> None"
  by (auto simp: good_iff)

lemma good_not_ready_shown:
  "good ss \<Longrightarrow> \<not> ready ss \<Longrightarrow> ss ''output_text'' = None"
  by (auto simp: good_iff ready_def)

lemma good_model_name: "good ss \<Longrightarrow> \<exists>name. ss ''model_name'' = Some name"
  by (auto simp: good_iff)

lemma ocr_block_other:
  assumes "good (session_state st)" and "k \<noteq> ''output_text''"
  shows "session_state (ocr_block env w st) k = session_state st k"
  using assms by (simp add: ocr_block_eq extract_clicked_frame)

lemma ocr_block_control:
  assumes "good (session_state st)" and "session_state st ''current_image'' \<noteq> None"
  shows "control (ocr_block env w st) = control st"
proof -
  have "session_state st ''page_num'' \<noteq> None"
    using assms by (rule good_page_num)
  then show ?thesis
    using assms(1)
    by (simp add: ocr_block_eq display_results_control extract_clicked_frame)
qed

lemma ocr_block_load_calls:
  assumes "good (session_state st)"
  shows "filter is_load (calls (ocr_block env w st)) = filter is_load (calls st)"
  using assms by (simp add: ocr_block_eq extract_clicked_calls)

lemma ocr_block_idle:
  assumes "good (session_state st)" and "\<not> ready (session_state st) \<or> \<not> extract_text_button w"
  shows "session_state (ocr_block env w st) = session_state st"
    and "calls (ocr_block env w st) = calls st"
  using assms by (auto simp: ocr_block_eq)

lemma ocr_block_ui:
  assumes "good (session_state st)" and "session_state st ''current_image'' \<noteq> None"
  shows "displayed (ui (ocr_block env w st)) =
           displayed (ui st) @ shown w (session_state (ocr_block env w st))"
    and "downloads (ui (ocr_block env w st)) =
           downloads (ui st) @ offered (session_state (ocr_block env w st))"
proof -
  have pn: "session_state st ''page_num'' \<noteq> None"
    using assms by (rule good_page_num)
  show "displayed (ui (ocr_block env w st)) =
           displayed (ui st) @ shown w (session_state (ocr_block env w st))"
  proof (cases "ready (session_state st)")
    case False
    with assms(1) good_not_ready_shown[OF assms(1) False] show ?thesis
      by (simp add: ocr_block_eq shown_def displayed_append)
  next
    case True
    with assms(1) pn show ?thesis
      by (simp add: ocr_block_eq display_results_ui extract_clicked_frame extract_clicked_ui
          displayed_append)
  qed
  show "downloads (ui (ocr_block env w st)) =
           downloads (ui st) @ offered (session_state (ocr_block env w st))"
  proof (cases "ready (session_state st)")
    case False
    with assms(1) good_not_ready_shown[OF assms(1) False] show ?thesis
      by (simp add: ocr_block_eq offered_def downloads_append)
  next
    case True
    with assms(1) pn show ?thesis
      by (simp add: ocr_block_eq display_results_ui extract_clicked_frame extract_clicked_ui
          downloads_append)
  qed
qed

lemma upload_section_ui:
  "displayed (ui (upload_section env w st)) = displayed (ui st)"
  "downloads (ui (upload_section env w st)) = downloads (ui st)"
proof -
  have "displayed (ui (upload_section env w st)) = displayed (ui st) \<and>
        downloads (ui (upload_section env w st)) = downloads (ui st)"
  proof (cases "uploaded_file w")
    case None
    then show ?thesis by (simp add: upload_section_None displayed_append downloads_append)
  next
    case (Some d)
    show ?thesis
    proof (cases "convert_from_path env (Some d) 200")
      case (Inl e)
      from upload_section_raise[OF Some Inl, of st] show ?thesis
        by (simp add: displayed_append downloads_append)
    next
      case (Inr images)
      show ?thesis
      proof (cases "images = []")
        case True
        with Inr have "convert_from_path env (Some d) 200 = Inr []" by simp
        from upload_section_empty[OF Some this, of st] show ?thesis
          by (simp add: displayed_append downloads_append page_elements_def)
      next
        case False
        from upload_section_ok[OF Some Inr False, of st] show ?thesis
          by (simp add: displayed_append downloads_append page_elements_def)
      qed
    qed
  qed
  then show "displayed (ui (upload_section env w st)) = displayed (ui st)"
    and "downloads (ui (upload_section env w st)) = downloads (ui st)" by simp_all
qed

lemma upload_section_calls_filter:
  "filter is_load (calls (upload_section env w st)) = filter is_load (calls st)"
  "filter is_inference (calls (upload_section env w st)) = filter is_inference (calls st)"
  by (simp_all add: upload_section_calls split: option.splits)

lemma load_model_block_frame:
  "displayed (ui (load_model_block env w st)) = displayed (ui st)"
  "downloads (ui (load_model_block env w st)) = downloads (ui st)"
  "filter is_inference (calls (load_model_block env w st)) = filter is_inference (calls st)"
  "session_state (load_model_block env w st) ''output_text'' = session_state st ''output_text''"
  "session_state (load_model_block env w st) ''current_image'' = session_state st ''current_image''"
  "session_state (load_model_block env w st) ''page_num'' = session_state st ''page_num''"
  by (simp_all add: load_model_block_def load_model_button_block_def load_model_clicked_def
      load_vision_model_def Let_def displayed_append downloads_append
      split: sum.splits prod.splits)

lemma load_model_block_running:
  assumes "control st = Running" and "control (load_model_block env w st) = Running"
  shows "session_state (load_model_block env w st) = session_state st"
  using assms
  by (auto simp: load_model_block_def load_model_button_block_def load_model_clicked_def
      Let_def split: sum.splits prod.splits if_splits)

lemma load_model_block_control:
  assumes "good (session_state st)" and "control st = Running"
  shows "control (load_model_block env w st) = Running \<or>
         control (load_model_block env w st) = Rerun \<and> load_model_button w"
  using assms
  by (auto simp: load_model_block_eq load_model_clicked_def Let_def split: prod.splits)

lemma load_model_block_no_click:
  assumes "good (session_state st)" and "\<not> load_model_button w"
  shows "session_state (load_model_block env w st) = session_state st"
    and "calls (load_model_block env w st) = calls st"
    and "control (load_model_block env w st) = control st"
    and "ui (load_model_block env w st) =
           ui st @ (if load_offered w (session_state st) then [Button ''Load Model''] else [])"
  using assms by (simp_all add: load_model_block_eq)

lemma results_section_ui:
  assumes "good (session_state st)" and "control st = Running"
    and "control (results_section env w st) = Running"
  shows "displayed (ui (results_section env w st)) =
           displayed (ui st) @ shown w (session_state (results_section env w st))"
    and "downloads (ui (results_section env w st)) =
           downloads (ui st) @ offered (session_state (results_section env w st))"
proof -
  let ?h = "emit (Header ''OCR Results'') st"
  let ?st1 = "load_model_block env w ?h"
  have "displayed (ui (results_section env w st)) =
           displayed (ui st) @ shown w (session_state (results_section env w st)) \<and>
        downloads (ui (results_section env w st)) =
           downloads (ui st) @ offered (session_state (results_section env w st))"
  proof (cases "session_state st ''current_image'' = None")
    case True
    then have "session_state st ''output_text'' = None"
      using assms(1) by (auto simp: good_iff)
    with True show ?thesis
      by (simp add: results_section_no_image shown_def offered_def displayed_append
          downloads_append)
  next
    case False
    have g1: "good (session_state ?st1)"
      using assms(1) False by (simp add: good_load_model_block)
    have i1: "session_state ?st1 ''current_image'' \<noteq> None"
      using False by (simp add: load_model_block_frame)
    have c1: "control ?st1 = Running"
      using assms(3) False ocr_block_control[OF g1 i1, of env w]
      by (simp add: results_section_def Let_def split: if_splits)
    have eq: "results_section env w st = ocr_block env w ?st1"
      using False c1 by (simp add: results_section_def Let_def)
    from ocr_block_ui[OF g1 i1, of env w] show ?thesis
      by (simp add: eq load_model_block_frame displayed_append downloads_append)
  qed
  then show "displayed (ui (results_section env w st)) =
           displayed (ui st) @ shown w (session_state (results_section env w st))"
    and "downloads (ui (results_section env w st)) =
           downloads (ui st) @ offered (session_state (results_section env w st))"
    by simp_all
qed

lemma results_section_control:
  assumes "good (session_state st)" and "control st = Running"
  shows "control (results_section env w st) = Running \<or>
         control (results_section env w st) = Rerun \<and> load_model_button w"
proof (cases "session_state st ''current_image'' = None")
  case True
  with assms(2) show ?thesis by (simp add: results_section_no_image)
next
  case False
  let ?h = "emit (Header ''OCR Results'') st"
  let ?st1 = "load_model_block env w ?h"
  have g1: "good (session_state ?st1)"
    using assms(1) False by (simp add: good_load_model_block)
  have i1: "session_state ?st1 ''current_image'' \<noteq> None"
    using False by (simp add: load_model_block_frame)
  from load_model_block_control[of ?h env w] assms ocr_block_control[OF g1 i1, of env w] False
  show ?thesis
    by (auto simp: results_section_def Let_def)
qed

lemma results_section_output:
  assumes "good (session_state st)" and "control st = Running"
    and "\<not> ready (session_state st) \<or> \<not> extract_text_button w"
  shows "session_state (results_section env w st) ''output_text''
           = session_state st ''output_text''"
    and "filter is_inference (calls (results_section env w st))
           = filter is_inference (calls st)"
proof -
  let ?h = "emit (Header ''OCR Results'') st"
  let ?st1 = "load_model_block env w ?h"
  have g1: "session_state st ''current_image'' \<noteq> None \<Longrightarrow> good (session_state ?st1)"
    using assms(1) by (simp add: good_load_model_block)
  have idle: "control ?st1 = Running \<Longrightarrow>
          \<not> ready (session_state ?st1) \<or> \<not> extract_text_button w"
    using assms(2,3) load_model_block_running[of ?h env w] by auto
  have "session_state (results_section env w st) ''output_text''
           = session_state st ''output_text'' \<and>
        filter is_inference (calls (results_section env w st))
           = filter is_inference (calls st)"
  proof (cases "session_state st ''current_image'' \<noteq> None \<and> control ?st1 = Running")
    case True
    then have eq: "results_section env w st = ocr_block env w ?st1"
      by (simp add: results_section_def Let_def)
    from True have "\<not> ready (session_state ?st1) \<or> \<not> extract_text_button w"
      using idle by simp
    from ocr_block_idle[OF g1 this] True show ?thesis
      by (simp add: eq load_model_block_frame)
  next
    case False
    then show ?thesis
      by (auto simp: results_section_def Let_def load_model_block_frame)
  qed
  then show "session_state (results_section env w st) ''output_text''
           = session_state st ''output_text''"
    and "filter is_inference (calls (results_section env w st))
           = filter is_inference (calls st)" by simp_all
qed

lemma init_session_other:
  "k \<noteq> ''model'' \<Longrightarrow> k \<noteq> ''processor'' \<Longrightarrow> k \<noteq> ''model_loaded'' \<Longrightarrow> k \<noteq> ''model_name'' \<Longrightarrow>
   init_session ss k = ss k"
  by (simp add: init_session_def)

text \<open>The state in which the results section starts: after lines 84 to 150.\<close>

lemma script_results:
  "script env w st =
     results_section env w
       (upload_section env w (st\<lparr>session_state := init_session (session_state st)\<rparr>))"
  by (simp add: script_def)

lemma prepared_good:
  "session_inv (session_state st) \<Longrightarrow>
   good (session_state
           (upload_section env w (st\<lparr>session_state := init_session (session_state st)\<rparr>)))"
  by (simp add: good_upload_section good_init_session)

lemma prepared_ready:
  "session_inv (session_state st) \<Longrightarrow>
   ready (session_state
            (upload_section env w (st\<lparr>session_state := init_session (session_state st)\<rparr>)))
     = ready (session_state st)"
  using ready_cong[of "session_state
            (upload_section env w (st\<lparr>session_state := init_session (session_state st)\<rparr>))"
          "init_session (session_state st)"]
  by (simp add: upload_section_other ready_init_session)

lemma script_ui:
  assumes "session_inv (session_state st)" and "control st = Running"
    and "control (script env w st) = Running"
  shows "displayed (ui (script env w st)) =
           displayed (ui st) @ shown w (session_state (script env w st))"
    and "downloads (ui (script env w st)) =
           downloads (ui st) @ offered (session_state (script env w st))"
  using assms
    results_section_ui[OF prepared_good[OF assms(1), of env w], of env w]
  by (simp_all add: script_results upload_section_ui)

lemma script_control:
  assumes "session_inv (session_state st)" and "control st = Running"
  shows "control (script env w st) = Running \<or>
         control (script env w st) = Rerun \<and> load_model_button w"
  using assms results_section_control[OF prepared_good[OF assms(1), of env w], of env w]
  by (simp add: script_results)

lemma script_output:
  assumes "session_inv (session_state st)" and "control st = Running"
    and "\<not> ready (session_state st) \<or> \<not> extract_text_button w"
  shows "session_state (script env w st) ''output_text'' = session_state st ''output_text''"
    and "filter is_inference (calls (script env w st)) = filter is_inference (calls st)"
  using assms results_section_output[OF prepared_good[OF assms(1), of env w], where env=env and w=w]
    prepared_ready[OF assms(1), of env w]
  by (simp_all add: script_results upload_section_other init_session_other
      upload_section_calls_filter)

lemma shown_buttons [simp]:
  "shown (w\<lparr>load_model_button := a, extract_text_button := b\<rparr>) ss = shown w ss"
  by (simp add: shown_def split: option.splits)

text \<open>The second execution of an interaction, when there is one.\<close>

lemma interaction_cases:
  assumes "session_inv (session_state s)"
  obtains (once) "control (script env w (s\<lparr>ui := [], calls := [], control := Running\<rparr>)) = Running"
      "interaction env w s = script env w (s\<lparr>ui := [], calls := [], control := Running\<rparr>)"
    | (twice) "control (script env w (s\<lparr>ui := [], calls := [], control := Running\<rparr>)) = Rerun"
      "load_model_button w"
      "interaction env w s =
         script env (w\<lparr>load_model_button := False, extract_text_button := False\<rparr>)
           ((script env w (s\<lparr>ui := [], calls := [], control := Running\<rparr>))
              \<lparr>ui := [], control := Running\<rparr>)"
  using script_control[of "s\<lparr>ui := [], calls := [], control := Running\<rparr>" env w] assms
  by (auto simp: interaction_def Let_def)

lemma interaction_control:
  assumes "session_inv (session_state s)"
  shows "control (interaction env w s) = Running"
  using assms
proof (cases rule: interaction_cases[where env=env and w=w])
  case once
  then show ?thesis by simp
next
  case twice
  let ?st1 = "script env w (s\<lparr>ui := [], calls := [], control := Running\<rparr>)"
  let ?w' = "w\<lparr>load_model_button := False, extract_text_button := False\<rparr>"
  have "good (session_state ?st1)" using assms by (simp add: good_script)
  then have "session_inv (session_state (?st1\<lparr>ui := [], control := Running\<rparr>))"
    by (simp add: session_inv_def)
  from script_control[OF this, of env ?w'] twice(3) show ?thesis by simp
qed

lemma interaction_ui:
  assumes "session_inv (session_state s)"
  shows "displayed (ui (interaction env w s)) = shown w (session_state (interaction env w s))"
    and "downloads (ui (interaction env w s)) = offered (session_state (interaction env w s))"
proof -
  have "displayed (ui (interaction env w s)) = shown w (session_state (interaction env w s)) \<and>
        downloads (ui (interaction env w s)) = offered (session_state (interaction env w s))"
    using assms
  proof (cases rule: interaction_cases[where env=env and w=w])
    case once
    let ?s0 = "s\<lparr>ui := [], calls := [], control := Running\<rparr>"
    have "session_inv (session_state ?s0)" using assms by simp
    from script_ui[OF this _ once(1)] once(2) show ?thesis by simp
  next
    case twice
    let ?st1 = "script env w (s\<lparr>ui := [], calls := [], control := Running\<rparr>)"
    let ?w' = "w\<lparr>load_model_button := False, extract_text_button := False\<rparr>"
    have "good (session_state ?st1)" using assms by (simp add: good_script)
    then have inv1: "session_inv (session_state (?st1\<lparr>ui := [], control := Running\<rparr>))"
      by (simp add: session_inv_def)
    have "control (script env ?w' (?st1\<lparr>ui := [], control := Running\<rparr>)) = Running"
      using interaction_control[OF assms, of env w] twice(3) by simp
    from script_ui[OF inv1 _ this] twice(3) show ?thesis
      by simp
  qed
  then show "displayed (ui (interaction env w s)) = shown w (session_state (interaction env w s))"
    and "downloads (ui (interaction env w s)) = offered (session_state (interaction env w s))"
    by simp_all
qed

lemma interaction_output:
  assumes "session_inv (session_state s)"
    and "\<not> ready (session_state s) \<or> \<not> extract_text_button w"
  shows "session_state (interaction env w s) ''output_text'' = session_state s ''output_text''"
    and "filter is_inference (calls (interaction env w s)) = []"
proof -
  let ?s0 = "s\<lparr>ui := [], calls := [], control := Running\<rparr>"
  let ?st1 = "script env w ?s0"
  let ?w' = "w\<lparr>load_model_button := False, extract_text_button := False\<rparr>"
  have inv0: "session_inv (session_state ?s0)" using assms by simp
  have first: "session_state ?st1 ''output_text'' = session_state s ''output_text''"
    "filter is_inference (calls ?st1) = []"
    using script_output[OF inv0, where w=w and env=env] assms(2) by simp_all
  have "session_state (interaction env w s) ''output_text'' = session_state s ''output_text'' \<and>
        filter is_inference (calls (interaction env w s)) = []"
    using assms(1)
  proof (cases rule: interaction_cases[where env=env and w=w])
    case once
    with first show ?thesis by simp
  next
    case twice
    have "good (session_state ?st1)" using assms by (simp add: good_script)
    then have inv1: "session_inv (session_state (?st1\<lparr>ui := [], control := Running\<rparr>))"
      by (simp add: session_inv_def)
    from script_output[OF inv1, where w="?w'" and env=env] first twice(3) show ?thesis by simp
  qed
  then show "session_state (interaction env w s) ''output_text'' = session_state s ''output_text''"
    and "filter is_inference (calls (interaction env w s)) = []"
    by simp_all
qed

lemma reachable_session_inv: "reachable s \<Longrightarrow> session_inv (session_state s)"
proof (induction rule: reachable.induct)
  case new
  show ?case by (simp add: session_inv_def fresh_def new_session_def)
next
  case (step s env w)
  then show ?case by (simp add: session_inv_def session_inv_interaction)
qed

lemma inference_mem:
  "filter is_inference cs = [] \<Longrightarrow> Generate m p fp img n t v \<notin> set cs"
  "filter is_inference cs = [] \<Longrightarrow> ApplyChatTemplate p c q k \<notin> set cs"
  by (auto simp: filter_empty_conv)

lemma extract_clicked_generate:
  assumes "Generate m p fp img 2048 (1 / 10) False \<in> set (calls (extract_clicked env w st))"
    and "Generate m p fp img 2048 (1 / 10) False \<notin> set (calls st)"
    and "generate env m p fp img 2048 (1 / 10) False = Inr r"
  shows "session_state (extract_clicked env w st) =
           (session_state st)(''output_text'' \<mapsto> PStr (result_text r))"
  using assms
  by (auto simp: extract_clicked_def extract_try_body_def Let_def
      split: sum.splits prod.splits option.splits)

lemma results_section_generate:
  assumes "good (session_state st)" and "control st = Running"
    and "Generate m p fp img 2048 (1 / 10) False \<in> set (calls (results_section env w st))"
    and "filter is_inference (calls st) = []"
    and "generate env m p fp img 2048 (1 / 10) False = Inr r"
  shows "session_state (results_section env w st) ''output_text''
           = Some (PStr (result_text r))"
proof -
  let ?h = "emit (Header ''OCR Results'') st"
  let ?L = "load_model_block env w ?h"
  have noL: "filter is_inference (calls ?L) = []"
    using assms(4) by (simp add: load_model_block_frame)
  have img: "session_state st ''current_image'' \<noteq> None"
  proof
    assume "session_state st ''current_image'' = None"
    then have "calls (results_section env w st) = calls st"
      by (simp add: results_section_no_image)
    with assms(3) inference_mem(1)[OF assms(4)] show False by simp
  qed
  have run: "control ?L = Running"
  proof (rule ccontr)
    assume "control ?L \<noteq> Running"
    then have "results_section env w st = ?L"
      using img by (simp add: results_section_def Let_def)
    with assms(3) inference_mem(1)[OF noL] show False by simp
  qed
  have eq: "results_section env w st = ocr_block env w ?L"
    using img run by (simp add: results_section_def Let_def)
  have gL: "good (session_state ?L)"
    using assms(1) img by (simp add: good_load_model_block)
  have rdy: "ready (session_state ?L) \<and> extract_text_button w"
  proof (rule ccontr)
    assume "\<not> (ready (session_state ?L) \<and> extract_text_button w)"
    then have "\<not> ready (session_state ?L) \<or> \<not> extract_text_button w" by simp
    from ocr_block_idle(2)[OF gL this, of env] assms(3) inference_mem(1)[OF noL] eq
    show False by simp
  qed
  obtain name where name: "session_state ?L ''model_name'' = Some name"
    using good_model_name[OF gL] by blast
  let ?L' = "?L\<lparr>ui := ui ?L @ [Success (''Model ready: '' @ format name), Button ''Extract Text'']\<rparr>"
  have eq2: "results_section env w st = display_results w (extract_clicked env w ?L')"
    using eq ocr_block_extract[OF gL _ _ name, of w env] rdy by simp
  have "Generate m p fp img 2048 (1 / 10) False \<in> set (calls (extract_clicked env w ?L'))"
    using assms(3) eq2 by simp
  moreover have "Generate m p fp img 2048 (1 / 10) False \<notin> set (calls ?L')"
    using inference_mem(1)[OF noL] by simp
  ultimately have "session_state (extract_clicked env w ?L') =
           (session_state ?L')(''output_text'' \<mapsto> PStr (result_text r))"
    using assms(5) by (rule extract_clicked_generate)
  then show ?thesis by (simp add: eq2)
qed

lemma results_section_rerun:
  assumes "good (session_state st)" and "control st = Running"
    and "control (results_section env w st) = Rerun"
  shows "results_section env w st = load_model_block env w (emit (Header ''OCR Results'') st)"
proof (cases "session_state st ''current_image'' = None")
  case True
  with assms(2,3) show ?thesis by (simp add: results_section_no_image)
next
  case False
  let ?L = "load_model_block env w (emit (Header ''OCR Results'') st)"
  have gL: "good (session_state ?L)"
    using assms(1) False by (simp add: good_load_model_block)
  have iL: "session_state ?L ''current_image'' \<noteq> None"
    using False by (simp add: load_model_block_frame)
  from ocr_block_control[OF gL iL, of env w] assms(3) False show ?thesis
    by (auto simp: results_section_def Let_def split: if_splits)
qed

lemma script_rerun_calls:
  assumes "session_inv (session_state st)" and "control st = Running"
    and "control (script env w st) = Rerun"
  shows "filter is_inference (calls (script env w st)) = filter is_inference (calls st)"
    and "session_state (script env w st) ''output_text'' = session_state st ''output_text''"
  using assms results_section_rerun[OF prepared_good[OF assms(1), of env w], of env w]
  by (simp_all add: script_results load_model_block_frame upload_section_calls_filter
      upload_section_other init_session_other)

lemma script_generate:
  assumes "session_inv (session_state st)" and "control st = Running"
    and "Generate m p fp img 2048 (1 / 10) False \<in> set (calls (script env w st))"
    and "filter is_inference (calls st) = []"
    and "generate env m p fp img 2048 (1 / 10) False = Inr r"
  shows "session_state (script env w st) ''output_text'' = Some (PStr (result_text r))"
  using assms results_section_generate[OF prepared_good[OF assms(1), of env w], where env=env and w=w]
  by (simp add: script_results upload_section_calls_filter)

lemma interaction_generate:
  assumes "session_inv (session_state s)"
    and "Generate m p fp img 2048 (1 / 10) False \<in> set (calls (interaction env w s))"
    and "generate env m p fp img 2048 (1 / 10) False = Inr r"
  shows "session_state (interaction env w s) ''output_text'' = Some (PStr (result_text r))"
  using assms(1)
proof (cases rule: interaction_cases[where env=env and w=w])
  case once
  let ?s0 = "s\<lparr>ui := [], calls := [], control := Running\<rparr>"
  have "session_inv (session_state ?s0)" using assms(1) by simp
  from script_generate[OF this _ _ _ assms(3), of w] assms(2) once(2) show ?thesis by simp
next
  case twice
  let ?s0 = "s\<lparr>ui := [], calls := [], control := Running\<rparr>"
  let ?st1 = "script env w ?s0"
  let ?w' = "w\<lparr>load_model_button := False, extract_text_button := False\<rparr>"
  have inv0: "session_inv (session_state ?s0)" using assms(1) by simp
  have c1: "filter is_inference (calls ?st1) = []"
    using script_rerun_calls(1)[OF inv0 _ twice(1)] by simp
  have "good (session_state ?st1)" using assms(1) by (simp add: good_script)
  then have inv1: "session_inv (session_state (?st1\<lparr>ui := [], control := Running\<rparr>))"
    by (simp add: session_inv_def)
  have "filter is_inference (calls (interaction env w s)) = []"
    using script_output(2)[OF inv1, where w="?w'" and env=env] c1 twice(3) by simp
  from inference_mem(1)[OF this] assms(2) show ?thesis by simp
qed

lemmas script_defs = interaction_def script_def results_section_def upload_section_def
  pdf_try_body_def load_model_block_def load_model_button_block_def load_model_clicked_def
  load_vision_model_def ocr_block_def extract_clicked_def extract_try_body_def
  display_results_def init_session_def getattr_def getitem_def selectbox_def
  emit_def called_def setattr_def raise_def
  NamedTemporaryFile_def write_file_def read_file_def unlink_def exists_path_def
  str_int_def string_of_nat.simps digit_def Let_def upto.simps

lemmas ex_defs = ex_env_def ex_w_def ex_uploaded_def ex_loaded_def ex_extracted_def
  new_session_def

lemma ex_session_inv:
  "session_inv (session_state new_session)"
  "session_inv (session_state ex_uploaded)"
  "session_inv (session_state ex_loaded)"
  "session_inv (session_state ex_extracted)"
  by (auto simp: session_inv_def fresh_def good_iff ex_defs)

lemma good_offered:
  assumes "good ss" and "ss ''output_text'' = Some (PStr t)" and "t \<noteq> []"
  shows "\<exists>k. ss ''page_num'' = Some (PInt k) \<and>
             offered ss = [(PStr t, ''ocr_page_'' @ str_int k @ ''.txt'', ''text/plain'')]"
  using assms by (auto simp: good_iff offered_def)

lemma shown_stored:
  "ss ''output_text'' = Some (PStr t) \<Longrightarrow>
   shown w ss = (if t = [] then [] else [(render_markdown w, PStr t)])"
  by (simp add: shown_def)

lemma offered_empty: "ss ''output_text'' = Some (PStr []) \<Longrightarrow> offered ss = []"
  by (simp add: offered_def)

lemma upload_section_no_button:
  "Button l \<in> set (ui (upload_section env w st)) \<Longrightarrow> Button l \<in> set (ui st)"
proof (cases "uploaded_file w")
  case None
  assume "Button l \<in> set (ui (upload_section env w st))"
  with None show ?thesis by (simp add: upload_section_None)
next
  case (Some d)
  assume b: "Button l \<in> set (ui (upload_section env w st))"
  show ?thesis
  proof (cases "convert_from_path env (Some d) 200")
    case (Inl e)
    from upload_section_raise[OF Some Inl, of st] b show ?thesis by simp
  next
    case (Inr images)
    show ?thesis
    proof (cases "images = []")
      case True
      with Inr have "convert_from_path env (Some d) 200 = Inr []" by simp
      from upload_section_empty[OF Some this, of st] b show ?thesis
        by (simp add: page_elements_def)
    next
      case False
      from upload_section_ok[OF Some Inr False, of st] b show ?thesis
        by (simp add: page_elements_def split: if_splits)
    qed
  qed
qed

lemma results_section_not_ready:
  assumes "good (session_state st)" and "control st = Running"
    and "\<not> ready (session_state st)" and "\<not> load_model_button w"
  shows "results_section env w st =
     st\<lparr>ui := ui st @ Header ''OCR Results'' #
            (if session_state st ''current_image'' = None
             then [Info ''Upload a PDF file to begin'']
             else [Button ''Load Model'', Info ''Click 'Load Model' to start''])\<rparr>"
proof (cases "session_state st ''current_image'' = None")
  case True
  then show ?thesis by (simp add: results_section_no_image emit_def)
next
  case False
  have off: "load_offered w (session_state st)"
    using assms(3) by (simp add: load_offered_def)
  from results_section_no_load[OF assms(1) False assms(2), of w env] assms off False
  show ?thesis by (simp add: ocr_block_not_ready emit_def)
qed

lemma ex_uploaded_reached:
  "session_state (interaction ex_env ex_w new_session) = session_state ex_uploaded"
  by (rule ext) (simp add: ex_defs script_defs)

lemma ex_loaded_reached:
  "session_state (interaction ex_env (ex_w\<lparr>load_model_button := True\<rparr>) ex_uploaded)
     = session_state ex_loaded"
  by (rule ext) (simp add: ex_defs script_defs)

lemma ex_extracted_reached:
  "session_state (interaction ex_env (ex_w\<lparr>extract_text_button := True\<rparr>) ex_loaded)
     = session_state ex_extracted"
  by (rule ext) (simp add: ex_defs script_defs)

text \<open>An interaction reads nothing of a state but the session dictionary and the
  temporary directory, so the three examples stand for the states reached.\<close>

lemma interaction_cong:
  assumes "session_state a = session_state b" and "tmp_files a = tmp_files b"
  shows "interaction env w a = interaction env w b"
proof -
  have "a\<lparr>ui := [], calls := [], control := Running\<rparr>
          = b\<lparr>ui := [], calls := [], control := Running\<rparr>"
    using assms by (cases a; cases b) simp
  then show ?thesis by (simp add: interaction_def)
qed

lemma results_section_page:
  assumes "good (session_state st)"
    and "k = ''page_num'' \<or> k = ''current_image''"
  shows "session_state (results_section env w st) k = session_state st k"
proof (cases "session_state st ''current_image'' = None")
  case True
  then show ?thesis by (simp add: results_section_no_image)
next
  case False
  let ?L = "load_model_block env w (emit (Header ''OCR Results'') st)"
  have gL: "good (session_state ?L)"
    using assms(1) False by (simp add: good_load_model_block)
  from ocr_block_other[OF gL, of k env w] assms(2) show ?thesis
    by (auto simp: results_section_def Let_def load_model_block_frame)
qed

lemma interaction_no_load_click:
  assumes "session_inv (session_state s)" and "\<not> load_model_button w"
  shows "interaction env w s = script env w (s\<lparr>ui := [], calls := [], control := Running\<rparr>)"
  using assms by (cases rule: interaction_cases[where env=env and w=w]) simp_all

lemma buttons_append: "buttons (xs @ ys) = buttons xs @ buttons ys"
  by (induction xs rule: buttons.induct) simp_all

lemma upload_section_buttons: "buttons (ui (upload_section env w st)) = buttons (ui st)"
proof (cases "uploaded_file w")
  case None
  then show ?thesis by (simp add: upload_section_None buttons_append)
next
  case (Some d)
  show ?thesis
  proof (cases "convert_from_path env (Some d) 200")
    case (Inl e)
    from upload_section_raise[OF Some Inl, of st] show ?thesis by (simp add: buttons_append)
  next
    case (Inr images)
    show ?thesis
    proof (cases "images = []")
      case True
      with Inr have "convert_from_path env (Some d) 200 = Inr []" by simp
      from upload_section_empty[OF Some this, of st] show ?thesis
        by (simp add: buttons_append page_elements_def)
    next
      case False
      from upload_section_ok[OF Some Inr False, of st] show ?thesis
        by (simp add: buttons_append page_elements_def)
    qed
  qed
qed

lemma extract_clicked_buttons:
  "buttons (ui (extract_clicked env w st)) = buttons (ui st)"
  by (simp add: extract_clicked_def extract_try_body_def Let_def buttons_append
      split: sum.splits prod.splits option.splits)

lemma extract_clicked_ui_mono: "set (ui st) \<subseteq> set (ui (extract_clicked env w st))"
  by (auto simp: extract_clicked_def extract_try_body_def Let_def
      split: sum.splits prod.splits option.splits)

lemma display_results_buttons:
  "session_state st ''page_num'' \<noteq> None \<Longrightarrow>
   buttons (ui (display_results w st)) = buttons (ui st)"
  by (auto simp: display_results_eq buttons_append split: option.splits)

lemma display_results_ui_mono: "set (ui st) \<subseteq> set (ui (display_results w st))"
  by (auto simp: display_results_def Let_def split: sum.splits option.splits)

lemma load_model_block_buttons:
  assumes "good (session_state st)"
  shows "buttons (ui (load_model_block env w st)) =
           buttons (ui st) @ (if load_offered w (session_state st) then [''Load Model''] else [])"
  using assms
  by (simp add: load_model_block_eq load_model_clicked_def Let_def buttons_append
      split: prod.splits)

lemma ocr_block_buttons:
  assumes "good (session_state st)" and "session_state st ''current_image'' \<noteq> None"
  shows "buttons (ui (ocr_block env w st)) =
           buttons (ui st) @ (if ready (session_state st) then [''Extract Text''] else [])"
proof -
  have "session_state st ''page_num'' \<noteq> None"
    using assms by (rule good_page_num)
  then show ?thesis
    using assms(1)
    by (simp add: ocr_block_eq display_results_buttons extract_clicked_buttons
        extract_clicked_frame buttons_append)
qed

lemma ocr_block_banner:
  assumes "good (session_state st)" and "ready (session_state st)"
    and "session_state st ''model_name'' = Some name"
  shows "Success (''Model ready: '' @ format name) \<in> set (ui (ocr_block env w st))"
proof -
  let ?st1 = "emit (Button ''Extract Text'') (emit (Success (''Model ready: '' @ format name)) st)"
  have "Success (''Model ready: '' @ format name) \<in> set (ui ?st1)" by simp
  moreover have "set (ui ?st1) \<subseteq> set (ui (ocr_block env w st))"
    using assms extract_clicked_ui_mono[of ?st1 env w]
      display_results_ui_mono[of "extract_clicked env w ?st1" w]
      display_results_ui_mono[of ?st1 w]
    by (auto simp: ocr_block_eq)
  ultimately show ?thesis by blast
qed

lemma ocr_block_ui_mono:
  assumes "good (session_state st)"
  shows "set (ui st) \<subseteq> set (ui (ocr_block env w st))"
proof -
  let ?st1 = "emit (Button ''Extract Text'')
     (emit (Success (''Model ready: '' @ format (the (session_state st ''model_name'')))) st)"
  show ?thesis
    using assms extract_clicked_ui_mono[of ?st1 env w]
      display_results_ui_mono[of "extract_clicked env w ?st1" w]
      display_results_ui_mono[of ?st1 w]
    by (auto simp: ocr_block_eq)
qed

lemma extract_clicked_calls_made:
  assumes "session_state st ''current_image'' = Some img"
    and "session_state st ''processor'' = Some p"
    and "session_state st ''config'' = Some c"
    and "session_state st ''model'' = Some m"
  shows "ApplyChatTemplate p c (ocr_prompt w) 1 \<in> set (calls (extract_clicked env w st))"
    and "apply_chat_template env p c (ocr_prompt w) 1 = Inr fp \<Longrightarrow>
         Generate m p fp img 2048 (1 / 10) False \<in> set (calls (extract_clicked env w st))"
  using assms
  by (auto simp: extract_clicked_def extract_try_body_def getattr_def Let_def
      split: sum.splits)

lemma results_section_buttons:
  assumes "good (session_state st)" and "control st = Running"
    and "control (results_section env w st) = Running"
  shows "buttons (ui (results_section env w st)) =
           buttons (ui st) @ buttons_for w (session_state (results_section env w st))"
proof (cases "session_state st ''current_image'' = None")
  case True
  then show ?thesis
    by (simp add: results_section_no_image buttons_for_def buttons_append)
next
  case False
  let ?h = "emit (Header ''OCR Results'') st"
  let ?L = "load_model_block env w ?h"
  have gL: "good (session_state ?L)"
    using assms(1) False by (simp add: good_load_model_block)
  have iL: "session_state ?L ''current_image'' \<noteq> None"
    using False by (simp add: load_model_block_frame)
  have cL: "control ?L = Running"
    using assms(3) False ocr_block_control[OF gL iL, of env w]
    by (simp add: results_section_def Let_def split: if_splits)
  have eq: "results_section env w st = ocr_block env w ?L"
    using False cL by (simp add: results_section_def Let_def)
  have sL: "session_state ?L = session_state st"
    using load_model_block_running[of ?h env w] assms(2) cL by simp
  have same: "load_offered w (session_state (ocr_block env w ?L)) = load_offered w (session_state st)"
    "ready (session_state (ocr_block env w ?L)) = ready (session_state st)"
    "session_state (ocr_block env w ?L) ''current_image'' = session_state st ''current_image''"
    using ocr_block_other[OF gL, of _ env w] sL
    by (simp_all add: load_offered_def ready_def)
  from ocr_block_buttons[OF gL iL, of env w] load_model_block_buttons[of ?h env w] assms(1)
    same False sL
  show ?thesis by (simp add: eq buttons_for_def buttons_append)
qed

lemma script_buttons:
  assumes "session_inv (session_state st)" and "control st = Running"
    and "control (script env w st) = Running"
  shows "buttons (ui (script env w st)) =
           buttons (ui st) @ buttons_for w (session_state (script env w st))"
  using assms results_section_buttons[OF prepared_good[OF assms(1), of env w], of env w]
  by (simp add: script_results upload_section_buttons)

lemma buttons_for_buttons [simp]:
  "buttons_for (w\<lparr>load_model_button := a, extract_text_button := b\<rparr>) ss = buttons_for w ss"
  by (simp add: buttons_for_def load_offered_def)

lemma interaction_buttons:
  assumes "session_inv (session_state s)"
  shows "buttons (ui (interaction env w s)) = buttons_for w (session_state (interaction env w s))"
  using assms
proof (cases rule: interaction_cases[where env=env and w=w])
  case once
  let ?s0 = "s\<lparr>ui := [], calls := [], control := Running\<rparr>"
  have "session_inv (session_state ?s0)" using assms by simp
  from script_buttons[OF this _ once(1)] once(2) show ?thesis by simp
next
  case twice
  let ?st1 = "script env w (s\<lparr>ui := [], calls := [], control := Running\<rparr>)"
  let ?w' = "w\<lparr>load_model_button := False, extract_text_button := False\<rparr>"
  have "good (session_state ?st1)" using assms by (simp add: good_script)
  then have inv1: "session_inv (session_state (?st1\<lparr>ui := [], control := Running\<rparr>))"
    by (simp add: session_inv_def)
  have "control (script env ?w' (?st1\<lparr>ui := [], control := Running\<rparr>)) = Running"
    using interaction_control[OF assms, of env w] twice(3) by simp
  from script_buttons[OF inv1 _ this] twice(3) show ?thesis by simp
qed

lemma load_offered_buttons [simp]:
  "load_offered (w\<lparr>load_model_button := a, extract_text_button := b\<rparr>) ss = load_offered w ss"
  by (simp add: load_offered_def)

text \<open>The results section when the load does not run: the button is not drawn, or not
  clicked.\<close>

lemma results_section_no_fire:
  assumes "good (session_state st)" and "control st = Running"
    and "\<not> (load_offered w (session_state st) \<and> load_model_button w)"
  shows "control (results_section env w st) = Running"
    and "k \<noteq> ''output_text'' \<Longrightarrow>
         session_state (results_section env w st) k = session_state st k"
    and "filter is_load (calls (results_section env w st)) = filter is_load (calls st)"
proof -
  have "control (results_section env w st) = Running \<and>
        (k \<noteq> ''output_text'' \<longrightarrow>
           session_state (results_section env w st) k = session_state st k) \<and>
        filter is_load (calls (results_section env w st)) = filter is_load (calls st)"
  proof (cases "session_state st ''current_image'' = None")
    case True
    with assms(2) show ?thesis by (simp add: results_section_no_image)
  next
    case False
    let ?X = "(if load_offered w (session_state st) then emit (Button ''Load Model'') else id)
                (emit (Header ''OCR Results'') st)"
    have eq: "results_section env w st = ocr_block env w ?X"
      by (rule results_section_no_load[OF assms(1) False assms(2,3)])
    have gX: "good (session_state ?X)" using assms(1) by simp
    have iX: "session_state ?X ''current_image'' \<noteq> None" using False by simp
    from ocr_block_control[OF gX iX, of env w] ocr_block_other[OF gX, of k env w]
      ocr_block_load_calls[OF gX, of env w] assms(2)
    show ?thesis by (simp add: eq)
  qed
  then show "control (results_section env w st) = Running"
    and "k \<noteq> ''output_text'' \<Longrightarrow>
         session_state (results_section env w st) k = session_state st k"
    and "filter is_load (calls (results_section env w st)) = filter is_load (calls st)"
    by simp_all
qed

lemma prepared_model_attr:
  assumes "good (session_state st)"
    and "k \<noteq> ''current_image''" and "k \<noteq> ''page_num''"
  shows "session_state
           (upload_section env w (st\<lparr>session_state := init_session (session_state st)\<rparr>)) k
         = session_state st k"
  using assms by (simp add: upload_section_other init_session_good)

lemma prepared_load_offered:
  assumes "good (session_state st)"
  shows "load_offered w (session_state
           (upload_section env w' (st\<lparr>session_state := init_session (session_state st)\<rparr>)))
         = load_offered w (session_state st)"
  using prepared_model_attr[OF assms, of "''model_loaded''" env w']
    prepared_model_attr[OF assms, of "''model_name''" env w']
  by (simp add: load_offered_def ready_def)

lemma prepared_image:
  assumes "session_state st ''current_image'' \<noteq> None"
  shows "session_state
           (upload_section env w (st\<lparr>session_state := init_session (session_state st)\<rparr>))
           ''current_image'' \<noteq> None"
  using assms by (simp add: upload_section_keeps init_session_keeps)

lemma script_no_fire:
  assumes "good (session_state st)" and "control st = Running"
    and "\<not> (load_offered w (session_state st) \<and> load_model_button w)"
  shows "control (script env w st) = Running"
    and "k \<noteq> ''output_text'' \<Longrightarrow> k \<noteq> ''current_image'' \<Longrightarrow> k \<noteq> ''page_num'' \<Longrightarrow>
         session_state (script env w st) k = session_state st k"
    and "filter is_load (calls (script env w st)) = filter is_load (calls st)"
proof -
  let ?U = "upload_section env w (st\<lparr>session_state := init_session (session_state st)\<rparr>)"
  have inv: "session_inv (session_state st)" using assms(1) by (simp add: session_inv_def)
  have gU: "good (session_state ?U)" by (rule prepared_good[OF inv])
  have cU: "control ?U = Running" using assms(2) by simp
  have nf: "\<not> (load_offered w (session_state ?U) \<and> load_model_button w)"
    using assms(3) prepared_load_offered[OF assms(1), of w env w] by simp
  show "control (script env w st) = Running"
    using results_section_no_fire(1)[OF gU cU nf] by (simp add: script_results)
  show "filter is_load (calls (script env w st)) = filter is_load (calls st)"
    using results_section_no_fire(3)[OF gU cU nf, of env]
    by (simp add: script_results upload_section_calls_filter)
  show "session_state (script env w st) k = session_state st k"
    if "k \<noteq> ''output_text''" "k \<noteq> ''current_image''" "k \<noteq> ''page_num''"
    using results_section_no_fire(2)[OF gU cU nf that(1), of env]
      prepared_model_attr[OF assms(1) that(2,3), of env w]
    by (simp add: script_results)
qed

lemma interaction_no_fire:
  assumes "good (session_state s)"
    and "\<not> (load_offered w (session_state s) \<and> load_model_button w)"
  shows "interaction env w s = script env w (s\<lparr>ui := [], calls := [], control := Running\<rparr>)"
    and "k \<noteq> ''output_text'' \<Longrightarrow> k \<noteq> ''current_image'' \<Longrightarrow> k \<noteq> ''page_num'' \<Longrightarrow>
         session_state (interaction env w s) k = session_state s k"
    and "filter is_load (calls (interaction env w s)) = []"
proof -
  let ?s0 = "s\<lparr>ui := [], calls := [], control := Running\<rparr>"
  have g0: "good (session_state ?s0)" using assms(1) by simp
  have nf: "\<not> (load_offered w (session_state ?s0) \<and> load_model_button w)"
    using assms(2) by simp
  show eq: "interaction env w s = script env w ?s0"
    using script_no_fire(1)[OF g0 _ nf, of env] by (simp add: interaction_def Let_def)
  show "filter is_load (calls (interaction env w s)) = []"
    using script_no_fire(3)[OF g0 _ nf, of env] by (simp add: eq)
  show "session_state (interaction env w s) k = session_state s k"
    if "k \<noteq> ''output_text''" "k \<noteq> ''current_image''" "k \<noteq> ''page_num''"
    using script_no_fire(2)[OF g0 _ nf that, of env] by (simp add: eq)
qed

text \<open>The results section when the load runs.\<close>

lemma script_load_else:
  assumes "good (session_state st)" and "control st = Running"
    and "session_state st ''current_image'' \<noteq> None"
    and "load_offered w (session_state st)" and "load_model_button w"
    and "load_vision_model env (model_name w) = ((m, p, c, er), cs)" and "\<not> truthy er"
  shows "control (script env w st) = Rerun"
    and "calls (script env w st) =
           calls (upload_section env w (st\<lparr>session_state := init_session (session_state st)\<rparr>))
           @ cs"
    and "session_state (script env w st) ''model'' = Some m"
    and "session_state (script env w st) ''processor'' = Some p"
    and "session_state (script env w st) ''config'' = Some c"
    and "session_state (script env w st) ''model_loaded'' = Some (PBool True)"
    and "session_state (script env w st) ''model_name'' = Some (PStr (model_name w))"
    and "session_state (script env w st) ''current_image'' \<noteq> None"
proof -
  let ?U = "upload_section env w (st\<lparr>session_state := init_session (session_state st)\<rparr>)"
  have inv: "session_inv (session_state st)" using assms(1) by (simp add: session_inv_def)
  have gU: "good (session_state ?U)" by (rule prepared_good[OF inv])
  have cU: "control ?U = Running" using assms(2) by simp
  have iU: "session_state ?U ''current_image'' \<noteq> None" by (rule prepared_image[OF assms(3)])
  have oU: "load_offered w (session_state ?U)"
    using assms(4) prepared_load_offered[OF assms(1), of w env w] by simp
  note eq = results_section_load_else[OF gU iU cU oU assms(5,6,7)]
  show "control (script env w st) = Rerun"
    and "calls (script env w st) = calls ?U @ cs"
    and "session_state (script env w st) ''model'' = Some m"
    and "session_state (script env w st) ''processor'' = Some p"
    and "session_state (script env w st) ''config'' = Some c"
    and "session_state (script env w st) ''model_loaded'' = Some (PBool True)"
    and "session_state (script env w st) ''model_name'' = Some (PStr (model_name w))"
    and "session_state (script env w st) ''current_image'' \<noteq> None"
    using iU by (simp_all add: script_results eq)
qed

lemma script_load_error:
  assumes "good (session_state st)" and "control st = Running"
    and "session_state st ''current_image'' \<noteq> None"
    and "load_offered w (session_state st)" and "load_model_button w"
    and "load_vision_model env (model_name w) = ((m, p, c, er), cs)" and "truthy er"
  shows "control (script env w st) = Running"
    and "Error (''Failed to load model: '' @ format er) \<in> set (ui (script env w st))"
    and "k \<noteq> ''output_text'' \<Longrightarrow> k \<noteq> ''current_image'' \<Longrightarrow> k \<noteq> ''page_num'' \<Longrightarrow>
         session_state (script env w st) k = session_state st k"
proof -
  let ?U = "upload_section env w (st\<lparr>session_state := init_session (session_state st)\<rparr>)"
  let ?V = "?U\<lparr>ui := ui ?U @ [Header ''OCR Results'', Button ''Load Model'',
                           Spinner (''Loading model: '' @ model_name w @ ''...''),
                           Error (''Failed to load model: '' @ format er),
                           Info ''Make sure the model is available. You may need to download it first.''],
           calls := calls ?U @ cs\<rparr>"
  have inv: "session_inv (session_state st)" using assms(1) by (simp add: session_inv_def)
  have gU: "good (session_state ?U)" by (rule prepared_good[OF inv])
  have cU: "control ?U = Running" using assms(2) by simp
  have iU: "session_state ?U ''current_image'' \<noteq> None" by (rule prepared_image[OF assms(3)])
  have oU: "load_offered w (session_state ?U)"
    using assms(4) prepared_load_offered[OF assms(1), of w env w] by simp
  have eq: "script env w st = ocr_block env w ?V"
    using results_section_load_error[OF gU iU cU oU assms(5,6,7)] by (simp add: script_results)
  have gV: "good (session_state ?V)" using gU by simp
  have iV: "session_state ?V ''current_image'' \<noteq> None" using iU by simp
  show "control (script env w st) = Running"
    using ocr_block_control[OF gV iV, of env w] cU by (simp add: eq)
  show "Error (''Failed to load model: '' @ format er) \<in> set (ui (script env w st))"
    using ocr_block_ui_mono[OF gV, of env w] by (auto simp: eq)
  show "session_state (script env w st) k = session_state st k"
    if "k \<noteq> ''output_text''" "k \<noteq> ''current_image''" "k \<noteq> ''page_num''"
    using ocr_block_other[OF gV that(1), of env w]
      prepared_model_attr[OF assms(1) that(2,3), of env w]
    by (simp add: eq)
qed

lemma interaction_load_ok:
  assumes "good (session_state s)" and "session_state s ''current_image'' \<noteq> None"
    and "load_offered w (session_state s)" and "load_model_button w"
    and "mlx_load env (model_name w) = Inr (m, p)"
    and "load_config env (model_name w) = Inr c"
  shows "model_attrs (session_state (interaction env w s)) =
           [Some (PModel m), Some (PProcessor p), Some (PConfig c), Some (PBool True),
            Some (PStr (model_name w))]"
    and "filter is_load (calls (interaction env w s))
           = [MlxLoad (model_name w), LoadConfig (model_name w)]"
    and "session_state (interaction env w s) ''current_image'' \<noteq> None"
proof -
  let ?s0 = "s\<lparr>ui := [], calls := [], control := Running\<rparr>"
  let ?st1 = "script env w ?s0"
  let ?r = "?st1\<lparr>ui := [], control := Running\<rparr>"
  let ?w' = "w\<lparr>load_model_button := False, extract_text_button := False\<rparr>"
  have g0: "good (session_state ?s0)" using assms(1) by simp
  have i0: "session_state ?s0 ''current_image'' \<noteq> None" using assms(2) by simp
  have o0: "load_offered w (session_state ?s0)" using assms(3) by simp
  note lvm = load_vision_model_ok[OF assms(5,6)]
  note first = script_load_else[OF g0 _ i0 o0 assms(4) lvm]
  have eq: "interaction env w s = script env ?w' ?r"
    using first(1) by (simp add: interaction_def Let_def)
  have gr: "good (session_state ?r)"
    using assms(1) by (simp add: good_script session_inv_def)
  have nf: "\<not> (load_offered ?w' (session_state ?r) \<and> load_model_button ?w')" by simp
  note second = script_no_fire[OF gr _ nf, where env=env]
  have c1: "filter is_load (calls ?st1) = [MlxLoad (model_name w), LoadConfig (model_name w)]"
    using first(2) by (simp add: upload_section_calls_filter)
  show "model_attrs (session_state (interaction env w s)) =
           [Some (PModel m), Some (PProcessor p), Some (PConfig c), Some (PBool True),
            Some (PStr (model_name w))]"
    using second(2) first(3-7) by (simp add: eq model_attrs_def)
  show "filter is_load (calls (interaction env w s))
           = [MlxLoad (model_name w), LoadConfig (model_name w)]"
    using second(3) c1 by (simp add: eq)
  let ?U' = "upload_section env ?w' (?r\<lparr>session_state := init_session (session_state ?r)\<rparr>)"
  have ir: "session_state ?r ''current_image'' \<noteq> None" using first(8) by simp
  have "session_inv (session_state ?r)" using gr by (simp add: session_inv_def)
  then have gU': "good (session_state ?U')" by (rule prepared_good)
  have "session_state (results_section env ?w' ?U') ''current_image''
          = session_state ?U' ''current_image''"
    by (rule results_section_page[OF gU']) simp
  with prepared_image[OF ir, of env ?w']
  show "session_state (interaction env w s) ''current_image'' \<noteq> None"
    by (simp add: eq script_results)
qed

lemma interaction_load_error:
  assumes "good (session_state s)" and "session_state s ''current_image'' \<noteq> None"
    and "load_offered w (session_state s)" and "load_model_button w"
    and "load_vision_model env (model_name w) = ((m, p, c, er), cs)" and "truthy er"
  shows "Error (''Failed to load model: '' @ format er) \<in> set (ui (interaction env w s))"
    and "k \<noteq> ''output_text'' \<Longrightarrow> k \<noteq> ''current_image'' \<Longrightarrow> k \<noteq> ''page_num'' \<Longrightarrow>
         session_state (interaction env w s) k = session_state s k"
proof -
  let ?s0 = "s\<lparr>ui := [], calls := [], control := Running\<rparr>"
  have g0: "good (session_state ?s0)" using assms(1) by simp
  have i0: "session_state ?s0 ''current_image'' \<noteq> None" using assms(2) by simp
  have o0: "load_offered w (session_state ?s0)" using assms(3) by simp
  note first = script_load_error[OF g0 _ i0 o0 assms(4,5,6)]
  have eq: "interaction env w s = script env w ?s0"
    using first(1) by (simp add: interaction_def Let_def)
  show "Error (''Failed to load model: '' @ format er) \<in> set (ui (interaction env w s))"
    using first(2) by (simp add: eq)
  show "session_state (interaction env w s) k = session_state s k"
    if "k \<noteq> ''output_text''" "k \<noteq> ''current_image''" "k \<noteq> ''page_num''"
    using first(3)[OF _ that] by (simp add: eq)
qed

lemma inv_image_good:
  "session_inv (session_state s) \<Longrightarrow> session_state s ''current_image'' \<noteq> None \<Longrightarrow>
   good (session_state s)"
  by (auto simp: session_inv_def fresh_def)

lemma good_ready_attrs:
  assumes "good ss" and "ready ss"
  shows "ss ''model_loaded'' = Some (PBool True)"
    and "\<exists>m p c i. ss ''model'' = Some m \<and> ss ''processor'' = Some p \<and> ss ''config'' = Some c \<and>
           ss ''current_image'' = Some i"
  using assms by (auto simp: good_iff ready_def)

text \<open>A ready session in an interaction whose load does not run.\<close>

lemma interaction_ready_no_fire:
  assumes "good (session_state s)" and "ready (session_state s)"
    and "session_state s ''model_name'' = Some name"
    and "\<not> (load_offered w (session_state s) \<and> load_model_button w)"
  shows "Success (''Model ready: '' @ format name) \<in> set (ui (interaction env w s))"
    and "buttons (ui (interaction env w s)) =
           (if load_offered w (session_state s) then [''Load Model''] else []) @ [''Extract Text'']"
    and "model_attrs (session_state (interaction env w s)) = model_attrs (session_state s)"
    and "ready (session_state (interaction env w s))"
    and "extract_text_button w \<Longrightarrow>
         session_state s ''processor'' = Some pr \<Longrightarrow> session_state s ''config'' = Some cf \<Longrightarrow>
         ApplyChatTemplate pr cf (ocr_prompt w) 1 \<in> set (calls (interaction env w s))"
    and "extract_text_button w \<Longrightarrow>
         session_state s ''processor'' = Some pr \<Longrightarrow> session_state s ''config'' = Some cf \<Longrightarrow>
         session_state s ''model'' = Some md \<Longrightarrow>
         session_state (interaction env w s) ''current_image'' = Some img \<Longrightarrow>
         apply_chat_template env pr cf (ocr_prompt w) 1 = Inr fp \<Longrightarrow>
         Generate md pr fp img 2048 (1 / 10) False \<in> set (calls (interaction env w s))"
proof -
  let ?s0 = "s\<lparr>ui := [], calls := [], control := Running\<rparr>"
  let ?U = "upload_section env w (?s0\<lparr>session_state := init_session (session_state ?s0)\<rparr>)"
  let ?X = "(if load_offered w (session_state ?U) then emit (Button ''Load Model'') else id)
                (emit (Header ''OCR Results'') ?U)"
  have g0: "good (session_state ?s0)" using assms(1) by simp
  have inv0: "session_inv (session_state ?s0)" using g0 by (simp add: session_inv_def)
  have gU: "good (session_state ?U)" by (rule prepared_good[OF inv0])
  have attr: "session_state ?U k = session_state s k"
    if "k \<noteq> ''current_image''" "k \<noteq> ''page_num''" for k
    using prepared_model_attr[OF g0 that, of env w] by simp
  have oU: "load_offered w (session_state ?U) = load_offered w (session_state s)"
    using prepared_load_offered[OF g0, of w env w] by simp
  have rU: "ready (session_state ?U)"
    using assms(2) attr[of "''model_loaded''"] by (simp add: ready_def)
  have i0: "session_state ?s0 ''current_image'' \<noteq> None"
    using good_ready_attrs(2)[OF assms(1,2)] by auto
  have iU: "session_state ?U ''current_image'' \<noteq> None"
    by (rule prepared_image[OF i0])
  have eq0: "interaction env w s = script env w ?s0"
    by (rule interaction_no_fire(1)[OF assms(1,4)])
  have eq: "interaction env w s = ocr_block env w ?X"
    using results_section_no_load[OF gU iU, of w env] assms(4) oU
    by (simp add: eq0 script_results)
  have gX: "good (session_state ?X)" using gU by simp
  have rX: "ready (session_state ?X)" using rU by simp
  have nX: "session_state ?X ''model_name'' = Some name"
    using assms(3) attr[of "''model_name''"] by simp
  have iX: "session_state ?X ''current_image'' \<noteq> None" using iU by simp
  show "Success (''Model ready: '' @ format name) \<in> set (ui (interaction env w s))"
    using ocr_block_banner[OF gX rX nX, of env w] by (simp add: eq)
  show "buttons (ui (interaction env w s)) =
           (if load_offered w (session_state s) then [''Load Model''] else []) @ [''Extract Text'']"
    using ocr_block_buttons[OF gX iX, of env w] rX oU
    by (simp add: eq upload_section_buttons buttons_append)
  show ma: "model_attrs (session_state (interaction env w s)) = model_attrs (session_state s)"
    using interaction_no_fire(2)[OF assms(1,4), of _ env] by (simp add: model_attrs_def)
  show "ready (session_state (interaction env w s))"
    using ma assms(2) by (simp add: model_attrs_def ready_def)
  have ex: "interaction env w s = display_results w (extract_clicked env w
          (?X\<lparr>ui := ui ?X @ [Success (''Model ready: '' @ format name), Button ''Extract Text'']\<rparr>))"
    if "extract_text_button w"
    using ocr_block_extract[OF gX rX that nX, of env] by (simp add: eq)
  show "ApplyChatTemplate pr cf (ocr_prompt w) 1 \<in> set (calls (interaction env w s))"
    if "extract_text_button w" "session_state s ''processor'' = Some pr"
      "session_state s ''config'' = Some cf"
  proof -
    obtain md i where "session_state s ''model'' = Some md" "session_state ?U ''current_image'' = Some i"
      using good_ready_attrs(2)[OF assms(1,2)] iU by auto
    then show ?thesis
      using extract_clicked_calls_made(1)[of
          "?X\<lparr>ui := ui ?X @ [Success (''Model ready: '' @ format name), Button ''Extract Text'']\<rparr>"
          i pr cf md w env] that attr[of "''processor''"] attr[of "''config''"] attr[of "''model''"]
      by (simp add: ex[OF that(1)])
  qed
  show "Generate md pr fp img 2048 (1 / 10) False \<in> set (calls (interaction env w s))"
    if "extract_text_button w" "session_state s ''processor'' = Some pr"
      "session_state s ''config'' = Some cf" "session_state s ''model'' = Some md"
      "session_state (interaction env w s) ''current_image'' = Some img"
      "apply_chat_template env pr cf (ocr_prompt w) 1 = Inr fp"
  proof -
    have "session_state (interaction env w s) ''current_image'' = session_state ?U ''current_image''"
      using results_section_page[OF gU, of "''current_image''" env w]
      by (simp add: eq0 script_results)
    with that(5) have "session_state ?U ''current_image'' = Some img" by simp
    then show ?thesis
      using extract_clicked_calls_made(2)[of
          "?X\<lparr>ui := ui ?X @ [Success (''Model ready: '' @ format name), Button ''Extract Text'']\<rparr>"
          img pr cf md env w fp] that attr[of "''processor''"] attr[of "''config''"] attr[of "''model''"]
      by (simp add: ex[OF that(1)])
  qed
qed

lemma load_vision_model_fail:
  assumes "mlx_load env n = Inl e \<or> (\<exists>h. mlx_load env n = Inr h \<and> load_config env n = Inl e)"
  shows "\<exists>cs. load_vision_model env n = ((PNone, PNone, PNone, PStr (str e)), cs)"
  using assms by (auto simp: load_vision_model_def split: prod.splits)

text \<open>Every state a session can reach satisfies the invariant the claims are stated
  under (\<open>reachable_session_inv\<close>), and the three example states are reached from a
  new session by an upload, a load and an extraction (\<open>ex_uploaded_reached\<close>,
  \<open>ex_loaded_reached\<close>, \<open>ex_extracted_reached\<close>).\<close>

lemma pdf_try_body_frame:
  "tmp_files (snd (pdf_try_body env w p st)) = tmp_files st \<and>
   control (snd (pdf_try_body env w p st)) = control st \<and>
   calls (snd (pdf_try_body env w p st)) = calls st @ [ConvertFromPath p 200]"
  by (simp add: pdf_try_body_def Let_def split: sum.splits)

lemma upload_section_with_write_None:
  "upload_section_with_write None env w st = upload_section env w st"
  by (simp add: upload_section_with_write_def upload_section_def save_upload_def
      convert_and_clean_up_def write_file_def Let_def split: option.splits)

lemma script_with_write_None:
  "control st = Running \<Longrightarrow> script_with_write None env w st = script env w st"
  by (simp add: script_with_write_def script_def upload_section_with_write_None)

lemma interaction_with_writes_None:
  "interaction_with_writes None None env w st = interaction env w st"
  by (simp add: interaction_with_writes_def interaction_def script_with_write_None Let_def)

text \<open>When the write returns: the file did not exist before, holds the upload when the
  \<^verbatim>\<open>try\<close> is entered, is still there when the \<^verbatim>\<open>try\<close> body is left, whatever the
  conversion did, and is gone after the \<^verbatim>\<open>finally\<close>, which leaves the directory as it
  was before the upload.\<close>

lemma temp_file_deleted_when_written:
  assumes "save_upload None data st = (r, p, st1)"
  shows "r = None \<and> p = NamedTemporaryFile (tmp_files st) \<and>
         \<not> exists_path (tmp_files st) p \<and>
         exists_path (tmp_files st1) p \<and> read_file (tmp_files st1) p = Some data \<and>
         tmp_files (snd (pdf_try_body env w p st1)) = tmp_files st1 \<and>
         calls (convert_and_clean_up env w p st1) = calls st @ [ConvertFromPath p 200] \<and>
         \<not> exists_path (tmp_files (convert_and_clean_up env w p st1)) p \<and>
         tmp_files (convert_and_clean_up env w p st1) = tmp_files st"
proof -
  let ?p = "NamedTemporaryFile (tmp_files st)"
  have r: "r = None" and p: "p = ?p"
    and st1: "tmp_files st1 = write_file (tmp_files st) ?p data" "calls st1 = calls st"
    using assms by (auto simp: save_upload_def Let_def write_file_def)
  have fresh: "\<not> exists_path (tmp_files st) ?p" by (rule NamedTemporaryFile_fresh)
  have body: "tmp_files (snd (pdf_try_body env w ?p st1)) = tmp_files st1"
    "calls (snd (pdf_try_body env w ?p st1)) = calls st1 @ [ConvertFromPath ?p 200]"
    using pdf_try_body_frame[of env w ?p st1] by simp_all
  have after: "tmp_files (convert_and_clean_up env w ?p st1) = tmp_files st"
    "calls (convert_and_clean_up env w ?p st1) = calls st @ [ConvertFromPath ?p 200]"
    using body st1 fresh
    by (auto simp: convert_and_clean_up_def Let_def exists_write unlink_write_fresh
        split: prod.splits option.splits)
  show ?thesis
    using r p st1 fresh body after by (simp add: exists_write read_write)
qed

lemma recorded_handle_iff:
  "recorded_handle env ss \<longleftrightarrow>
     (ready ss \<longrightarrow>
        (\<exists>n m p c. ss ''model_name'' = Some (PStr n) \<and> mlx_load env n = Inr (m, p) \<and>
           load_config env n = Inr c \<and> ss ''model'' = Some (PModel m) \<and>
           ss ''processor'' = Some (PProcessor p) \<and> ss ''config'' = Some (PConfig c)))"
  by (auto simp: recorded_handle_def split: option.splits pyval.splits sum.splits prod.splits)

lemma recorded_handle_cong:
  assumes "\<And>k. k \<noteq> ''output_text'' \<Longrightarrow> k \<noteq> ''current_image'' \<Longrightarrow> k \<noteq> ''page_num'' \<Longrightarrow>
             ss' k = ss k"
  shows "recorded_handle env ss' = recorded_handle env ss"
proof -
  have "ss' ''model_name'' = ss ''model_name''" "ss' ''model'' = ss ''model''"
    "ss' ''processor'' = ss ''processor''" "ss' ''config'' = ss ''config''"
    "ss' ''model_loaded'' = ss ''model_loaded''"
    by (simp_all add: assms)
  then show ?thesis by (simp add: recorded_handle_iff ready_def)
qed

lemma recorded_handle_init_session:
  assumes "session_inv ss" and "recorded_handle env ss"
  shows "recorded_handle env (init_session ss)"
  using assms(1) unfolding session_inv_def
proof (elim disjE)
  assume "fresh ss"
  then show ?thesis by (simp add: fresh_def init_session_def recorded_handle_iff ready_def)
next
  assume "good ss"
  with assms(2) show ?thesis by (simp add: init_session_good)
qed

lemma results_section_recorded_handle:
  assumes "good (session_state st)" and "control st = Running"
    and "failures_have_message env" and "recorded_handle env (session_state st)"
  shows "recorded_handle env (session_state (results_section env w st))"
proof (cases "session_state st ''current_image'' = None")
  case True
  with assms(4) show ?thesis by (simp add: results_section_no_image)
next
  case img: False
  show ?thesis
  proof (cases "load_offered w (session_state st) \<and> load_model_button w")
    case False
    have "recorded_handle env (session_state (results_section env w st))
            = recorded_handle env (session_state st)"
      by (rule recorded_handle_cong) (simp add: results_section_no_fire(2)[OF assms(1,2) False])
    with assms(4) show ?thesis by simp
  next
    case fire: True
    show ?thesis
    proof (cases rule: load_vision_model_cases[of env "model_name w"])
      case (ok m p c)
      have nt: "\<not> truthy PNone" by simp
      from results_section_load_else[OF assms(1) img assms(2) _ _ ok(3) nt] fire ok(1,2)
      show ?thesis by (simp add: recorded_handle_iff ready_def)
    next
      case (fail e cs)
      have "str e \<noteq> []"
        using fail(1) assms(3) by (auto simp: failures_have_message_def)
      then have t: "truthy (PStr (str e))" by simp
      let ?V = "st\<lparr>ui := ui st @ [Header ''OCR Results'', Button ''Load Model'',
                           Spinner (''Loading model: '' @ model_name w @ ''...''),
                           Error (''Failed to load model: '' @ format (PStr (str e))),
                           Info ''Make sure the model is available. You may need to download it first.''],
           calls := calls st @ cs\<rparr>"
      have eq: "results_section env w st = ocr_block env w ?V"
        using results_section_load_error[OF assms(1) img assms(2) _ _ fail(2) t] fire by simp
      have gV: "good (session_state ?V)" using assms(1) by simp
      have "recorded_handle env (session_state (ocr_block env w ?V))
              = recorded_handle env (session_state st)"
      proof (rule recorded_handle_cong)
        fix k :: string
        assume "k \<noteq> ''output_text''"
        from ocr_block_other[OF gV this, of env w]
        show "session_state (ocr_block env w ?V) k = session_state st k" by simp
      qed
      with assms(4) show ?thesis by (simp add: eq)
    qed
  qed
qed

lemma script_recorded_handle:
  assumes "session_inv (session_state st)" and "control st = Running"
    and "failures_have_message env" and "recorded_handle env (session_state st)"
  shows "recorded_handle env (session_state (script env w st))"
proof -
  let ?U = "upload_section env w (st\<lparr>session_state := init_session (session_state st)\<rparr>)"
  have gU: "good (session_state ?U)" by (rule prepared_good[OF assms(1)])
  have "recorded_handle env (session_state ?U)
          = recorded_handle env (init_session (session_state st))"
    by (rule recorded_handle_cong) (simp add: upload_section_other)
  then have rU: "recorded_handle env (session_state ?U)"
    using recorded_handle_init_session[OF assms(1,4)] by simp
  from results_section_recorded_handle[OF gU _ assms(3) rU, of w] assms(2)
  show ?thesis by (simp add: script_results)
qed

lemma interaction_recorded_handle:
  assumes "session_inv (session_state s)" and "failures_have_message env"
    and "recorded_handle env (session_state s)"
  shows "recorded_handle env (session_state (interaction env w s))"
  using assms(1)
proof (cases rule: interaction_cases[where env=env and w=w])
  case once
  let ?s0 = "s\<lparr>ui := [], calls := [], control := Running\<rparr>"
  have "session_inv (session_state ?s0)" "recorded_handle env (session_state ?s0)"
    using assms(1,3) by simp_all
  from script_recorded_handle[OF this(1) _ assms(2) this(2), of w] once(2)
  show ?thesis by simp
next
  case twice
  let ?s0 = "s\<lparr>ui := [], calls := [], control := Running\<rparr>"
  let ?st1 = "script env w ?s0"
  let ?r = "?st1\<lparr>ui := [], control := Running\<rparr>"
  let ?w' = "w\<lparr>load_model_button := False, extract_text_button := False\<rparr>"
  have i0: "session_inv (session_state ?s0)" "recorded_handle env (session_state ?s0)"
    using assms(1,3) by simp_all
  have r1: "recorded_handle env (session_state ?r)"
    using script_recorded_handle[OF i0(1) _ assms(2) i0(2), of w] by simp
  have "good (session_state ?st1)" using assms(1) by (simp add: good_script)
  then have ir: "session_inv (session_state ?r)" by (simp add: session_inv_def)
  from script_recorded_handle[OF ir _ assms(2) r1, of ?w'] twice(3)
  show ?thesis by simp
qed

lemma interactions_snoc:
  "interactions env (ws @ [w]) s = interaction env w (interactions env ws s)"
  by (simp add: interactions_def)

lemma interactions_session_inv:
  "session_inv (session_state (interactions env ws new_session))"
proof (induction ws rule: rev_induct)
  case Nil
  show ?case by (simp add: interactions_def session_inv_def fresh_def new_session_def)
next
  case (snoc w ws)
  then show ?case
    by (simp add: interactions_snoc session_inv_def session_inv_interaction)
qed

lemma interactions_recorded_handle:
  assumes "failures_have_message env"
  shows "recorded_handle env (session_state (interactions env ws new_session))"
proof (induction ws rule: rev_induct)
  case Nil
  show ?case
    by (simp add: interactions_def recorded_handle_iff ready_def new_session_def)
next
  case (snoc w ws)
  from interaction_recorded_handle[OF interactions_session_inv assms snoc]
  show ?case by (simp add: interactions_snoc)
qed

lemma inv_ready_good: "session_inv ss \<Longrightarrow> ready ss \<Longrightarrow> good ss"
  by (auto simp: session_inv_def fresh_def ready_def)

lemma ex_env_msg_failures: "failures_have_message ex_env_msg"
  by (auto simp: failures_have_message_def ex_env_msg_def ex_env_def split: if_splits)

section \<open>The claims\<close>

text \<open>
  Claim C8 does not hold of the code. The claim: for every upload the temporary file
  that holds the uploaded PDF is deleted, and no temporary file persists past the
  action. The file is created by \<^verbatim>\<open>NamedTemporaryFile(delete=False)\<close> and written at
  line 117, before the \<^verbatim>\<open>try\<close> whose \<^verbatim>\<open>finally\<close> unlinks it. When the write raises
  (here: no space left on the device), the exception leaves the script: no conversion
  is attempted, the \<^verbatim>\<open>finally\<close> is not reached, and the file created in the empty
  temporary directory is still there after the interaction. (When the write returns the
  file is deleted, whatever the conversion does: \<open>temp_file_deleted_when_written\<close>.)
\<close>

theorem temp_file_left_by_failed_write:
  "tmp_files new_session = [] \<and>
   uploaded_file ex_w = Some ''three pages'' \<and>
   save_upload (Some (Exception ''No space left on device'')) ''three pages'' new_session
     = (Some (Exception ''No space left on device''), 1, new_session\<lparr>tmp_files := [(1, [])]\<rparr>) \<and>
   tmp_files (upload_section_with_write (Some (Exception ''No space left on device''))
                ex_env ex_w new_session) = [(1, [])] \<and>
   tmp_files (interaction_with_writes (Some (Exception ''No space left on device'')) None
                ex_env ex_w new_session) = [(1, [])] \<and>
   exists_path
     (tmp_files (interaction_with_writes (Some (Exception ''No space left on device'')) None
                   ex_env ex_w new_session)) 1 \<and>
   calls (interaction_with_writes (Some (Exception ''No space left on device'')) None
            ex_env ex_w new_session) = [] \<and>
   control (interaction_with_writes (Some (Exception ''No space left on device'')) None
              ex_env ex_w new_session) = Raised (Exception ''No space left on device'') \<and>
   tmp_files (interaction_with_writes None None ex_env ex_w new_session) = []"
  by (simp add: ex_defs script_defs save_upload_def convert_and_clean_up_def
      upload_section_with_write_def script_with_write_def interaction_with_writes_def)

text \<open>
  Claim C6. For a PDF of \<open>N > 1\<close> pages the page selector offers exactly the pages
  \<open>1..N\<close>; selecting page \<open>k\<close> shows and stores the image of page \<open>k\<close> (the element
  \<open>k - 1\<close> of the converted list) and nothing else of the session changes; without a
  choice page 1 is selected. For a PDF of a single page no selector is drawn and page 1
  is shown and stored.
\<close>

theorem page_selection:
  assumes "uploaded_file w = Some d"
    and "convert_from_path env (Some d) 200 = Inr images"
    and "N = int (length images)"
    and "st' = upload_section env w st"
  shows "(1 < N \<longrightarrow>
           (\<forall>k. 1 \<le> k \<and> k \<le> N \<and> page_select w = Some k \<longrightarrow>
              ui st' = ui st @
                [FileUploader ''Choose a PDF file'', Spinner ''Converting PDF to images...'',
                 Success (''PDF loaded successfully! Found '' @ str_int N @ '' page(s)''),
                 Selectbox ''Select page to OCR'' [1 .. N],
                 ImageView (images ! nat (k - 1)) (''Page '' @ str_int k)] \<and>
              session_state st' =
                (session_state st)(''current_image'' \<mapsto> PImage (images ! nat (k - 1)),
                                   ''page_num'' \<mapsto> PInt k)) \<and>
           (page_select w = None \<longrightarrow>
              ImageView (images ! 0) ''Page 1'' \<in> set (ui st') \<and>
              session_state st' =
                (session_state st)(''current_image'' \<mapsto> PImage (images ! 0),
                                   ''page_num'' \<mapsto> PInt 1))) \<and>
         (N = 1 \<longrightarrow>
            ui st' = ui st @
              [FileUploader ''Choose a PDF file'', Spinner ''Converting PDF to images...'',
               Success ''PDF loaded successfully! Found 1 page(s)'',
               ImageView (images ! 0) ''Page 1''] \<and>
            session_state st' =
              (session_state st)(''current_image'' \<mapsto> PImage (images ! 0),
                                 ''page_num'' \<mapsto> PInt 1))"
proof -
  have one: "str_int 1 = ''1''"
    by (simp add: str_int_def string_of_nat.simps digit_def)
  show ?thesis
  proof (cases "images = []")
    case True
    with assms(3) show ?thesis by simp
  next
    case False
    note ok = upload_section_ok[OF assms(1,2) False, of st]
    have multi: "selected_page images (Some k) = k" if "1 < N" "1 \<le> k" "k \<le> N" for k
      using that assms(3) by (simp add: selected_page_def selectbox_def)
    have dflt: "selected_page images None = 1" if "1 < N"
      using that assms(3) by (simp add: selected_page_def selectbox_def upto.simps)
    have single: "selected_page images c = 1" if "N = 1" for c
      using that assms(3) by (simp add: selected_page_def)
    show ?thesis
      using ok assms(3,4) multi dflt single
      by (auto simp: page_elements_def one)
  qed
qed

theorem page_selection_witness:
  "ui (upload_section ex_env ex_w new_session) =
     [FileUploader ''Choose a PDF file'', Spinner ''Converting PDF to images...'',
      Success ''PDF loaded successfully! Found 3 page(s)'',
      Selectbox ''Select page to OCR'' [1, 2, 3], ImageView (Image 2) ''Page 2''] \<and>
   session_state (upload_section ex_env ex_w new_session) ''current_image''
     = Some (PImage (Image 2)) \<and>
   session_state (upload_section ex_env ex_w new_session) ''page_num'' = Some (PInt 2) \<and>
   ui (upload_section ex_env (ex_w\<lparr>uploaded_file := Some ''one page''\<rparr>) new_session) =
     [FileUploader ''Choose a PDF file'', Spinner ''Converting PDF to images...'',
      Success ''PDF loaded successfully! Found 1 page(s)'', ImageView (Image 7) ''Page 1''] \<and>
   session_state (upload_section ex_env (ex_w\<lparr>uploaded_file := Some ''one page''\<rparr>) new_session)
     ''page_num'' = Some (PInt 1)"
proof -
  have three: "uploaded_file ex_w = Some ''three pages''"
    and conv3: "convert_from_path ex_env (Some ''three pages'') 200
                  = Inr [Image 1, Image 2, Image 3]"
    and one: "uploaded_file (ex_w\<lparr>uploaded_file := Some ''one page''\<rparr>) = Some ''one page''"
    and conv1: "convert_from_path ex_env (Some ''one page'') 200 = Inr [Image 7]"
    by (simp_all add: ex_w_def ex_env_def)
  have sel: "page_select ex_w = Some 2"
    "page_select (ex_w\<lparr>uploaded_file := Some ''one page''\<rparr>) = Some 2"
    by (simp_all add: ex_w_def)
  have digits: "str_int 3 = ''3''" "str_int 2 = ''2''"
    by (simp_all add: str_int_def string_of_nat.simps digit_def)
  have range: "[1 .. 3] = [1, 2, 3 :: int]"
    by (simp add: upto.simps)
  from page_selection[OF three conv3 refl refl, of new_session]
    page_selection[OF one conv1 refl refl, of new_session]
  show ?thesis
    by (simp add: sel digits range new_session_def)
qed

text \<open>
  The guard of line 175 on the flag \<^verbatim>\<open>model_loaded\<close>. When the flag is false, an
  interaction makes no call to the prompt formatter or the generator and leaves the
  stored text alone; unless that same interaction is a click on Load Model, the session
  is still not ready afterwards, the Extract Text button is not even drawn, and the page
  ends with the request to load a model (or, without a page image, to upload a PDF).
\<close>

theorem extract_needs_loaded_model:
  assumes "session_inv (session_state s)" and "\<not> ready (session_state s)"
    and "s' = interaction env w s"
  shows "filter is_inference (calls s') = [] \<and>
         session_state s' ''output_text'' = session_state s ''output_text'' \<and>
         (\<not> load_model_button w \<longrightarrow>
            \<not> ready (session_state s') \<and>
            Button ''Extract Text'' \<notin> set (ui s') \<and>
            (last (ui s') = Info ''Click 'Load Model' to start'' \<or>
             last (ui s') = Info ''Upload a PDF file to begin''))"
proof -
  let ?s0 = "s\<lparr>ui := [], calls := [], control := Running\<rparr>"
  let ?U = "upload_section env w (?s0\<lparr>session_state := init_session (session_state ?s0)\<rparr>)"
  have inv0: "session_inv (session_state ?s0)" using assms(1) by simp
  have gU: "good (session_state ?U)" by (rule prepared_good[OF inv0])
  have nrU: "\<not> ready (session_state ?U)"
    using prepared_ready[OF inv0, of env w] assms(2) by simp
  have nb: "Button ''Extract Text'' \<notin> set (ui ?U)"
    using upload_section_no_button[of "''Extract Text''" env w
        "?s0\<lparr>session_state := init_session (session_state ?s0)\<rparr>"] by auto
  have ui: "\<not> load_model_button w \<longrightarrow>
            \<not> ready (session_state s') \<and>
            Button ''Extract Text'' \<notin> set (ui s') \<and>
            (last (ui s') = Info ''Click 'Load Model' to start'' \<or>
             last (ui s') = Info ''Upload a PDF file to begin'')"
  proof
    assume nl: "\<not> load_model_button w"
    have "s' = script env w ?s0"
      using assms(1,3) nl by (cases rule: interaction_cases[where env=env and w=w]) simp_all
    then have "s' = results_section env w ?U" by (simp add: script_results)
    with results_section_not_ready[OF gU _ nrU nl, of env] nrU nb
    show "\<not> ready (session_state s') \<and>
            Button ''Extract Text'' \<notin> set (ui s') \<and>
            (last (ui s') = Info ''Click 'Load Model' to start'' \<or>
             last (ui s') = Info ''Upload a PDF file to begin'')"
      by simp
  qed
  from interaction_output[OF assms(1), of w env] assms(2,3) ui show ?thesis by simp
qed

theorem extract_needs_loaded_model_witness:
  "filter is_inference
     (calls (interaction ex_env (ex_w\<lparr>extract_text_button := True\<rparr>) ex_uploaded)) = [] \<and>
   session_state (interaction ex_env (ex_w\<lparr>extract_text_button := True\<rparr>) ex_uploaded)
     ''output_text'' = None \<and>
   \<not> ready (session_state (interaction ex_env (ex_w\<lparr>extract_text_button := True\<rparr>) ex_uploaded)) \<and>
   Button ''Extract Text''
     \<notin> set (ui (interaction ex_env (ex_w\<lparr>extract_text_button := True\<rparr>) ex_uploaded)) \<and>
   last (ui (interaction ex_env (ex_w\<lparr>extract_text_button := True\<rparr>) ex_uploaded))
     = Info ''Click 'Load Model' to start''"
proof -
  have nr: "\<not> ready (session_state ex_uploaded)"
    by (simp add: ready_def ex_defs)
  have nl: "\<not> load_model_button (ex_w\<lparr>extract_text_button := True\<rparr>)"
    by (simp add: ex_defs)
  have out: "session_state ex_uploaded ''output_text'' = None"
    by (simp add: ex_defs)
  have lst: "last (ui (interaction ex_env (ex_w\<lparr>extract_text_button := True\<rparr>) ex_uploaded))
     = Info ''Click 'Load Model' to start''"
    by (simp add: ex_defs script_defs)
  from extract_needs_loaded_model[OF ex_session_inv(2) nr refl,
      of ex_env "ex_w\<lparr>extract_text_button := True\<rparr>"] nl out lst
  show ?thesis by simp
qed

text \<open>
  Claim C7 does not hold of the code. The claim: if no model is loaded in the session,
  an extract request never reaches the generation call, and fails as a precondition
  failure, not as an inference attempt with an absent model handle. After a load that
  failed without a message (the defect of claim C5) the session \<open>ex_uploaded\<close> holds
  \<^verbatim>\<open>None\<close> as model, processor and configuration, yet \<^verbatim>\<open>model_loaded\<close> is true; line 175
  tests only the flag, so Extract Text is drawn, and a click passes \<^verbatim>\<open>None\<close> to the
  prompt formatter and, as the formatter returns here, to the generator, whose text is
  stored; no error is reported.
\<close>

theorem extract_with_absent_handle:
  "mlx_load ex_env ''E'' = Inl (Exception []) \<and>
   session_state
     (interaction ex_env (ex_w\<lparr>model_name := ''E'', load_model_button := True\<rparr>) ex_uploaded)
     ''model'' = Some PNone \<and>
   session_state
     (interaction ex_env (ex_w\<lparr>model_name := ''E'', load_model_button := True\<rparr>) ex_uploaded)
     ''model_loaded'' = Some (PBool True) \<and>
   buttons (ui
     (interaction ex_env (ex_w\<lparr>model_name := ''E'', load_model_button := True\<rparr>) ex_uploaded))
     = [''Extract Text''] \<and>
   calls (interaction ex_env (ex_w\<lparr>model_name := ''E'', extract_text_button := True\<rparr>)
            (interaction ex_env (ex_w\<lparr>model_name := ''E'', load_model_button := True\<rparr>)
               ex_uploaded))
     = [ConvertFromPath 1 200, ApplyChatTemplate PNone PNone ''read'' 1,
        Generate PNone PNone ''read'' (PImage (Image 2)) 2048 (1 / 10) False] \<and>
   errors (ui (interaction ex_env (ex_w\<lparr>model_name := ''E'', extract_text_button := True\<rparr>)
            (interaction ex_env (ex_w\<lparr>model_name := ''E'', load_model_button := True\<rparr>)
               ex_uploaded))) = [] \<and>
   session_state
     (interaction ex_env (ex_w\<lparr>model_name := ''E'', extract_text_button := True\<rparr>)
        (interaction ex_env (ex_w\<lparr>model_name := ''E'', load_model_button := True\<rparr>)
           ex_uploaded))
     ''output_text'' = Some (PStr ''hello'')"
  by (simp add: ex_defs script_defs)

text \<open>
  Claim C9. For every successful extraction (a call of the generator that returned a
  result), the text of the result is stored unchanged; when it is shown, the Markdown
  view and the plain text area are given that same stored value, the toggle only choosing
  between them; and the download button delivers the same value as \<^verbatim>\<open>text/plain\<close>
  under the name \<^verbatim>\<open>ocr_page_<N>.txt\<close>, \<open>N\<close> being the page number of the session.
  (An empty text is stored but not shown.)
\<close>

theorem extraction_shown_as_stored:
  assumes "session_inv (session_state s)"
    and "Generate m p fp img 2048 (1 / 10) False \<in> set (calls (interaction env w s))"
    and "generate env m p fp img 2048 (1 / 10) False = Inr r"
    and "s' = interaction env w s"
  shows "session_state s' ''output_text'' = Some (PStr (result_text r)) \<and>
         displayed (ui s') =
           (if result_text r = [] then [] else [(render_markdown w, PStr (result_text r))]) \<and>
         (result_text r \<noteq> [] \<longrightarrow>
            (\<exists>k. session_state s' ''page_num'' = Some (PInt k) \<and>
                 downloads (ui s') =
                   [(PStr (result_text r), ''ocr_page_'' @ str_int k @ ''.txt'', ''text/plain'')]))"
proof -
  have out: "session_state s' ''output_text'' = Some (PStr (result_text r))"
    using interaction_generate[OF assms(1,2,3)] assms(4) by simp
  have g: "good (session_state s')"
    using assms(1,4) by (simp add: session_inv_interaction)
  from interaction_ui[OF assms(1), of env w] assms(4) out good_offered[OF g out]
  show ?thesis by (auto simp: shown_stored)
qed

theorem extraction_shown_as_stored_witness:
  "session_state (interaction ex_env (ex_w\<lparr>extract_text_button := True\<rparr>) ex_loaded)
     ''output_text'' = Some (PStr ''hello'') \<and>
   displayed (ui (interaction ex_env (ex_w\<lparr>extract_text_button := True\<rparr>) ex_loaded))
     = [(False, PStr ''hello'')] \<and>
   displayed (ui (interaction ex_env
      (ex_w\<lparr>extract_text_button := True, render_markdown := True\<rparr>) ex_loaded))
     = [(True, PStr ''hello'')] \<and>
   downloads (ui (interaction ex_env (ex_w\<lparr>extract_text_button := True\<rparr>) ex_loaded))
     = [(PStr ''hello'', ''ocr_page_2.txt'', ''text/plain'')]"
proof -
  let ?w = "ex_w\<lparr>extract_text_button := True\<rparr>"
  let ?wm = "ex_w\<lparr>extract_text_button := True, render_markdown := True\<rparr>"
  have c: "Generate (PModel (Model 1)) (PProcessor (Processor 1)) ''read'' (PImage (Image 2))
             2048 (1 / 10) False \<in> set (calls (interaction ex_env ?w ex_loaded))"
    and cm: "Generate (PModel (Model 1)) (PProcessor (Processor 1)) ''read'' (PImage (Image 2))
             2048 (1 / 10) False \<in> set (calls (interaction ex_env ?wm ex_loaded))"
    by (simp_all add: ex_defs script_defs)
  have g: "generate ex_env (PModel (Model 1)) (PProcessor (Processor 1)) ''read''
             (PImage (Image 2)) 2048 (1 / 10) False = Inr \<lparr>result_text = ''hello''\<rparr>"
    by (simp add: ex_defs)
  have pn: "session_state (interaction ex_env ?w ex_loaded) ''page_num'' = Some (PInt 2)"
    by (simp add: ex_defs script_defs)
  have two: "str_int 2 = ''2''"
    by (simp add: str_int_def string_of_nat.simps digit_def)
  from extraction_shown_as_stored[OF ex_session_inv(3) c g refl]
    extraction_shown_as_stored[OF ex_session_inv(3) cm g refl] pn two
  show ?thesis by (auto simp: ex_defs)
qed

text \<open>
  Claim C10. A successful extraction that produces the empty string is stored in the
  session, but neither the text nor the download button is offered, since the results
  display is guarded by the truth value of the stored text. A non-empty stored text
  stays in the session in every interaction that does not click Extract Text, and as
  long as it is the stored text it is shown and offered for download.
\<close>

theorem empty_result_hidden:
  assumes "session_inv (session_state s)" and "s' = interaction env w s"
  shows "(Generate m p fp img 2048 (1 / 10) False \<in> set (calls s') \<and>
          generate env m p fp img 2048 (1 / 10) False = Inr r \<and> result_text r = [] \<longrightarrow>
            session_state s' ''output_text'' = Some (PStr []) \<and>
            displayed (ui s') = [] \<and> downloads (ui s') = []) \<and>
         (session_state s ''output_text'' = Some (PStr t) \<and> t \<noteq> [] \<longrightarrow>
            (\<not> extract_text_button w \<longrightarrow> session_state s' ''output_text'' = Some (PStr t)) \<and>
            (session_state s' ''output_text'' = Some (PStr t) \<longrightarrow>
               displayed (ui s') = [(render_markdown w, PStr t)] \<and>
               (\<exists>k. session_state s' ''page_num'' = Some (PInt k) \<and>
                    downloads (ui s') =
                      [(PStr t, ''ocr_page_'' @ str_int k @ ''.txt'', ''text/plain'')])))"
proof -
  have g: "good (session_state s')"
    using assms by (simp add: session_inv_interaction)
  note ui = interaction_ui[OF assms(1), of env w]
  have a: "session_state s' ''output_text'' = Some (PStr []) \<and>
           displayed (ui s') = [] \<and> downloads (ui s') = []"
    if "Generate m p fp img 2048 (1 / 10) False \<in> set (calls s')"
      and "generate env m p fp img 2048 (1 / 10) False = Inr r" and "result_text r = []"
  proof -
    have "session_state s' ''output_text'' = Some (PStr [])"
      using interaction_generate[OF assms(1) _ that(2)] that(1,3) assms(2) by simp
    with ui assms(2) show ?thesis by (simp add: shown_stored offered_empty)
  qed
  have b1: "session_state s' ''output_text'' = Some (PStr t)"
    if "session_state s ''output_text'' = Some (PStr t)" and "\<not> extract_text_button w"
    using interaction_output(1)[OF assms(1), of w env] that assms(2) by simp
  have b2: "displayed (ui s') = [(render_markdown w, PStr t)] \<and>
            (\<exists>k. session_state s' ''page_num'' = Some (PInt k) \<and>
                 downloads (ui s') =
                   [(PStr t, ''ocr_page_'' @ str_int k @ ''.txt'', ''text/plain'')])"
    if "session_state s' ''output_text'' = Some (PStr t)" and "t \<noteq> []"
    using ui assms(2) that good_offered[OF g that] by (auto simp: shown_stored)
  from a b1 b2 show ?thesis by blast
qed

theorem empty_result_hidden_witness:
  "session_state
     (interaction ex_env (ex_w\<lparr>ocr_prompt := ''empty'', extract_text_button := True\<rparr>) ex_loaded)
     ''output_text'' = Some (PStr []) \<and>
   displayed (ui (interaction ex_env
      (ex_w\<lparr>ocr_prompt := ''empty'', extract_text_button := True\<rparr>) ex_loaded)) = [] \<and>
   downloads (ui (interaction ex_env
      (ex_w\<lparr>ocr_prompt := ''empty'', extract_text_button := True\<rparr>) ex_loaded)) = [] \<and>
   session_state (interaction ex_env ex_w ex_extracted) ''output_text'' = Some (PStr ''hello'') \<and>
   displayed (ui (interaction ex_env ex_w ex_extracted)) = [(False, PStr ''hello'')] \<and>
   downloads (ui (interaction ex_env ex_w ex_extracted))
     = [(PStr ''hello'', ''ocr_page_2.txt'', ''text/plain'')]"
proof -
  let ?w = "ex_w\<lparr>ocr_prompt := ''empty'', extract_text_button := True\<rparr>"
  have c: "Generate (PModel (Model 1)) (PProcessor (Processor 1)) ''empty'' (PImage (Image 2))
             2048 (1 / 10) False \<in> set (calls (interaction ex_env ?w ex_loaded))"
    by (simp add: ex_defs script_defs)
  have g: "generate ex_env (PModel (Model 1)) (PProcessor (Processor 1)) ''empty''
             (PImage (Image 2)) 2048 (1 / 10) False = Inr \<lparr>result_text = []\<rparr>"
    by (simp add: ex_defs)
  have stored: "session_state ex_extracted ''output_text'' = Some (PStr ''hello'')"
    and idle: "\<not> extract_text_button ex_w"
    by (simp_all add: ex_defs)
  have pn: "session_state (interaction ex_env ex_w ex_extracted) ''page_num'' = Some (PInt 2)"
    by (simp add: ex_defs script_defs)
  have two: "str_int 2 = ''2''"
    by (simp add: str_int_def string_of_nat.simps digit_def)
  from empty_result_hidden[OF ex_session_inv(3) refl, of "PModel (Model 1)"
      "PProcessor (Processor 1)" "''empty''" "PImage (Image 2)" ex_env ?w
      "\<lparr>result_text = []\<rparr>" "[]"]
    empty_result_hidden[OF ex_session_inv(4) refl, of "PModel (Model 1)"
      "PProcessor (Processor 1)" "''empty''" "PImage (Image 2)" ex_env ex_w
      "\<lparr>result_text = []\<rparr>" "''hello''"]
    c g stored idle pn two
  show ?thesis by (auto simp: ex_defs)
qed

text \<open>
  Claim C2, as the code has it. Changing the page selection keeps the extraction result:
  an interaction that selects page \<open>k\<close> of the uploaded PDF and clicks no button stores
  page \<open>k\<close> and its image, leaves the stored text as it is and, when the text is not
  empty, still shows it and offers it for download, now under the number of the newly
  selected page.
\<close>

theorem page_change_keeps_result:
  assumes "session_inv (session_state s)"
    and "session_state s ''output_text'' = Some (PStr t)"
    and "\<not> load_model_button w" and "\<not> extract_text_button w"
    and "uploaded_file w = Some d" and "convert_from_path env (Some d) 200 = Inr images"
    and "1 < length images" and "page_select w = Some k"
    and "1 \<le> k" and "k \<le> int (length images)"
    and "s' = interaction env w s"
  shows "session_state s' ''page_num'' = Some (PInt k) \<and>
         session_state s' ''current_image'' = Some (PImage (images ! nat (k - 1))) \<and>
         session_state s' ''output_text'' = Some (PStr t) \<and>
         displayed (ui s') = (if t = [] then [] else [(render_markdown w, PStr t)]) \<and>
         downloads (ui s') =
           (if t = [] then []
            else [(PStr t, ''ocr_page_'' @ str_int k @ ''.txt'', ''text/plain'')])"
proof -
  let ?s0 = "s\<lparr>ui := [], calls := [], control := Running\<rparr>"
  let ?st0 = "?s0\<lparr>session_state := init_session (session_state ?s0)\<rparr>"
  let ?U = "upload_section env w ?st0"
  have inv0: "session_inv (session_state ?s0)" using assms(1) by simp
  have gU: "good (session_state ?U)" by (rule prepared_good[OF inv0])
  have ne: "images \<noteq> []" using assms(7) by auto
  have sel: "selected_page images (page_select w) = k"
    using assms(7-10) by (simp add: selected_page_def selectbox_def)
  have eq: "s' = results_section env w ?U"
    using interaction_no_load_click[OF assms(1,3), of env] assms(11)
    by (simp add: script_results)
  have pg: "session_state s' ''page_num'' = Some (PInt k)"
    "session_state s' ''current_image'' = Some (PImage (images ! nat (k - 1)))"
    using results_section_page[OF gU, of "''page_num''" env w]
      results_section_page[OF gU, of "''current_image''" env w]
      upload_section_ok[OF assms(5,6) ne, of ?st0] sel
    by (simp_all add: eq)
  have out: "session_state s' ''output_text'' = Some (PStr t)"
    using interaction_output(1)[OF assms(1), of w env] assms(2,4,11) by simp
  have g: "good (session_state s')"
    using assms(1,11) by (simp add: session_inv_interaction)
  show ?thesis
  proof (cases "t = []")
    case True
    with interaction_ui[OF assms(1), of env w] assms(11) out pg show ?thesis
      by (simp add: shown_stored offered_empty)
  next
    case False
    with interaction_ui[OF assms(1), of env w] assms(11) out pg good_offered[OF g out False]
    show ?thesis by (auto simp: shown_stored)
  qed
qed

theorem page_change_keeps_result_witness:
  "session_state (interaction ex_env (ex_w\<lparr>page_select := Some 3\<rparr>) ex_extracted) ''page_num''
     = Some (PInt 3) \<and>
   session_state (interaction ex_env (ex_w\<lparr>page_select := Some 3\<rparr>) ex_extracted)
     ''current_image'' = Some (PImage (Image 3)) \<and>
   session_state (interaction ex_env (ex_w\<lparr>page_select := Some 3\<rparr>) ex_extracted)
     ''output_text'' = Some (PStr ''hello'') \<and>
   displayed (ui (interaction ex_env (ex_w\<lparr>page_select := Some 3\<rparr>) ex_extracted))
     = [(False, PStr ''hello'')] \<and>
   downloads (ui (interaction ex_env (ex_w\<lparr>page_select := Some 3\<rparr>) ex_extracted))
     = [(PStr ''hello'', ''ocr_page_3.txt'', ''text/plain'')]"
proof -
  let ?w = "ex_w\<lparr>page_select := Some 3\<rparr>"
  have h: "session_state ex_extracted ''output_text'' = Some (PStr ''hello'')"
    "\<not> load_model_button ?w" "\<not> extract_text_button ?w"
    "uploaded_file ?w = Some ''three pages''"
    "convert_from_path ex_env (Some ''three pages'') 200 = Inr [Image 1, Image 2, Image 3]"
    "1 < length [Image 1, Image 2, Image 3]" "page_select ?w = Some 3"
    "(1::int) \<le> 3" "3 \<le> int (length [Image 1, Image 2, Image 3])"
    by (simp_all add: ex_defs)
  have three: "str_int 3 = ''3''"
    by (simp add: str_int_def string_of_nat.simps digit_def)
  from page_change_keeps_result[OF ex_session_inv(4) h refl] three
  show ?thesis by (simp add: ex_defs)
qed

text \<open>
  Claim C2 as the specification states it fails: the session \<open>ex_extracted\<close> holds the
  text extracted from page 2; after the selection of page 3 the text is still stored and
  still on the page, under the heading and the file name of page 3, and no new
  extraction has run.
\<close>

theorem page_change_discards_result_counterexample:
  "session_state ex_extracted ''output_text'' = Some (PStr ''hello'') \<and>
   session_state ex_extracted ''page_num'' = Some (PInt 2) \<and>
   session_state (interaction ex_env (ex_w\<lparr>page_select := Some 3\<rparr>) ex_extracted) ''page_num''
     = Some (PInt 3) \<and>
   session_state (interaction ex_env (ex_w\<lparr>page_select := Some 3\<rparr>) ex_extracted)
     ''output_text'' = Some (PStr ''hello'') \<and>
   filter is_inference (calls (interaction ex_env (ex_w\<lparr>page_select := Some 3\<rparr>) ex_extracted))
     = [] \<and>
   drop 8 (ui (interaction ex_env (ex_w\<lparr>page_select := Some 3\<rparr>) ex_extracted)) =
     [Subheader ''Extracted Text (Page 3)'', Toggle ''Render as Markdown'',
      TextArea ''OCR Output'' (PStr ''hello''),
      DownloadButton ''Download Text'' (PStr ''hello'') ''ocr_page_3.txt'' ''text/plain'']"
  by (simp add: ex_defs script_defs)

text \<open>
  Claim C4. When a load request has succeeded, the next load request with the same
  identifier does no load work: it calls neither \<^verbatim>\<open>mlx_load\<close> nor \<^verbatim>\<open>load_config\<close>,
  leaves the model attributes as the first request set them, does not even draw the
  Load Model button, and the page says that the model is ready.
\<close>

theorem second_load_is_noop:
  assumes "session_inv (session_state s)" and "session_state s ''current_image'' \<noteq> None"
    and "load_offered w1 (session_state s)" and "load_model_button w1"
    and "mlx_load env1 (model_name w1) = Inr (m, p)"
    and "load_config env1 (model_name w1) = Inr c"
    and "model_name w2 = model_name w1"
    and "s1 = interaction env1 w1 s" and "s2 = interaction env2 w2 s1"
  shows "filter is_load (calls s1) = [MlxLoad (model_name w1), LoadConfig (model_name w1)] \<and>
         filter is_load (calls s2) = [] \<and>
         model_attrs (session_state s2) = model_attrs (session_state s1) \<and>
         buttons (ui s2) = [''Extract Text''] \<and>
         Success (''Model ready: '' @ model_name w1) \<in> set (ui s2)"
proof -
  have g: "good (session_state s)" by (rule inv_image_good[OF assms(1,2)])
  note first = interaction_load_ok[OF g assms(2,3,4,5,6)]
  have g1: "good (session_state s1)"
    using assms(1,8) by (simp add: session_inv_interaction)
  have a1: "session_state s1 ''model_loaded'' = Some (PBool True)"
    "session_state s1 ''model_name'' = Some (PStr (model_name w1))"
    using first(1) assms(8) by (simp_all add: model_attrs_def)
  have r1: "ready (session_state s1)" using a1 by (simp add: ready_def)
  have no: "\<not> load_offered w2 (session_state s1)"
    using a1 assms(7) by (simp add: load_offered_def ready_def)
  then have nf: "\<not> (load_offered w2 (session_state s1) \<and> load_model_button w2)" by simp
  note second = interaction_ready_no_fire[OF g1 r1 a1(2) nf, where env=env2]
  from first(2) interaction_no_fire(3)[OF g1 nf, of env2] second(1,2,3) no assms(8,9)
  show ?thesis by simp
qed

theorem second_load_is_noop_witness:
  "filter is_load (calls (interaction ex_env (ex_w\<lparr>load_model_button := True\<rparr>) ex_uploaded))
     = [MlxLoad ''A'', LoadConfig ''A''] \<and>
   filter is_load
     (calls (interaction ex_env (ex_w\<lparr>load_model_button := True\<rparr>)
        (interaction ex_env (ex_w\<lparr>load_model_button := True\<rparr>) ex_uploaded))) = [] \<and>
   model_attrs (session_state (interaction ex_env (ex_w\<lparr>load_model_button := True\<rparr>)
        (interaction ex_env (ex_w\<lparr>load_model_button := True\<rparr>) ex_uploaded)))
     = model_attrs (session_state
        (interaction ex_env (ex_w\<lparr>load_model_button := True\<rparr>) ex_uploaded)) \<and>
   buttons (ui (interaction ex_env (ex_w\<lparr>load_model_button := True\<rparr>)
        (interaction ex_env (ex_w\<lparr>load_model_button := True\<rparr>) ex_uploaded)))
     = [''Extract Text''] \<and>
   Success ''Model ready: A''
     \<in> set (ui (interaction ex_env (ex_w\<lparr>load_model_button := True\<rparr>)
        (interaction ex_env (ex_w\<lparr>load_model_button := True\<rparr>) ex_uploaded)))"
proof -
  let ?w = "ex_w\<lparr>load_model_button := True\<rparr>"
  have h: "session_state ex_uploaded ''current_image'' \<noteq> None"
    "load_offered ?w (session_state ex_uploaded)" "load_model_button ?w"
    "mlx_load ex_env (model_name ?w) = Inr (Model 1, Processor 1)"
    "load_config ex_env (model_name ?w) = Inr (Config 1)"
    by (simp_all add: ex_defs load_offered_def ready_def)
  have n: "model_name ?w = ''A''" by (simp add: ex_defs)
  from second_load_is_noop[OF ex_session_inv(2) h refl refl refl, of ex_env] n
  show ?thesis by simp
qed

text \<open>
  Claim C1, as the code has it. Take a session under libraries whose load failures all
  carry a message (the defect of claim C5 apart). Whenever the session is ready, its one
  handle is the one the libraries return for the identifier recorded in
  \<^verbatim>\<open>model_name\<close>; a successful load writes the handle and the selected identifier
  together; the recorded identifier need not be the one currently selected. Extraction
  may run whenever the session is ready, and runs with the recorded handle. Changing the
  selected identifier while ready does not leave the ready state: the recorded handle
  and identifier stay, the page still says that the recorded model is ready and offers
  Extract Text, and Load Model is offered again.
\<close>

theorem ready_session_keeps_recorded_model:
  assumes "failures_have_message env"
    and "s = interactions env ws new_session"
    and "s' = interaction env w s"
  shows "recorded_handle env (session_state s) \<and>
         (session_state s ''current_image'' \<noteq> None \<and> load_offered w (session_state s) \<and>
          load_model_button w \<and>
          mlx_load env (model_name w) = Inr (m, p) \<and> load_config env (model_name w) = Inr c \<longrightarrow>
            model_attrs (session_state s') =
              [Some (PModel m), Some (PProcessor p), Some (PConfig c), Some (PBool True),
               Some (PStr (model_name w))]) \<and>
         (ready (session_state s) \<and> session_state s ''model_name'' = Some (PStr a) \<and>
          \<not> load_model_button w \<longrightarrow>
            (\<exists>md pr cf img.
               mlx_load env a = Inr (md, pr) \<and> load_config env a = Inr cf \<and>
               model_attrs (session_state s) =
                 [Some (PModel md), Some (PProcessor pr), Some (PConfig cf), Some (PBool True),
                  Some (PStr a)] \<and>
               model_attrs (session_state s') = model_attrs (session_state s) \<and>
               ready (session_state s') \<and>
               buttons (ui s') =
                 (if a \<noteq> model_name w then [''Load Model''] else []) @ [''Extract Text''] \<and>
               Success (''Model ready: '' @ a) \<in> set (ui s') \<and>
               session_state s' ''current_image'' = Some img \<and>
               (extract_text_button w \<longrightarrow>
                  ApplyChatTemplate (PProcessor pr) (PConfig cf) (ocr_prompt w) 1 \<in> set (calls s') \<and>
                  (\<forall>fp. apply_chat_template env (PProcessor pr) (PConfig cf) (ocr_prompt w) 1
                          = Inr fp \<longrightarrow>
                        Generate (PModel md) (PProcessor pr) fp img 2048 (1 / 10) False
                          \<in> set (calls s')))))"
proof -
  have inv: "session_inv (session_state s)"
    using assms(2) by (simp add: interactions_session_inv)
  have rec: "recorded_handle env (session_state s)"
    using assms(1,2) by (simp add: interactions_recorded_handle)
  have part1: "model_attrs (session_state s') =
              [Some (PModel m), Some (PProcessor p), Some (PConfig c), Some (PBool True),
               Some (PStr (model_name w))]"
    if "session_state s ''current_image'' \<noteq> None" "load_offered w (session_state s)"
      "load_model_button w"
      "mlx_load env (model_name w) = Inr (m, p)" "load_config env (model_name w) = Inr c"
    using interaction_load_ok(1)[OF inv_image_good[OF inv that(1)] that] assms(3) by simp
  have part2: "\<exists>md pr cf img.
               mlx_load env a = Inr (md, pr) \<and> load_config env a = Inr cf \<and>
               model_attrs (session_state s) =
                 [Some (PModel md), Some (PProcessor pr), Some (PConfig cf), Some (PBool True),
                  Some (PStr a)] \<and>
               model_attrs (session_state s') = model_attrs (session_state s) \<and>
               ready (session_state s') \<and>
               buttons (ui s') =
                 (if a \<noteq> model_name w then [''Load Model''] else []) @ [''Extract Text''] \<and>
               Success (''Model ready: '' @ a) \<in> set (ui s') \<and>
               session_state s' ''current_image'' = Some img \<and>
               (extract_text_button w \<longrightarrow>
                  ApplyChatTemplate (PProcessor pr) (PConfig cf) (ocr_prompt w) 1 \<in> set (calls s') \<and>
                  (\<forall>fp. apply_chat_template env (PProcessor pr) (PConfig cf) (ocr_prompt w) 1
                          = Inr fp \<longrightarrow>
                        Generate (PModel md) (PProcessor pr) fp img 2048 (1 / 10) False
                          \<in> set (calls s')))"
    if r: "ready (session_state s)" and n: "session_state s ''model_name'' = Some (PStr a)"
      and nl: "\<not> load_model_button w"
  proof -
    have g: "good (session_state s)" by (rule inv_ready_good[OF inv r])
    obtain md pr cf where h: "mlx_load env a = Inr (md, pr)" "load_config env a = Inr cf"
      "session_state s ''model'' = Some (PModel md)"
      "session_state s ''processor'' = Some (PProcessor pr)"
      "session_state s ''config'' = Some (PConfig cf)"
      using rec r n by (auto simp: recorded_handle_iff)
    have ml: "session_state s ''model_loaded'' = Some (PBool True)"
      by (rule good_ready_attrs(1)[OF g r])
    have attrs: "model_attrs (session_state s) =
                 [Some (PModel md), Some (PProcessor pr), Some (PConfig cf), Some (PBool True),
                  Some (PStr a)]"
      using h n ml by (simp add: model_attrs_def)
    have nf: "\<not> (load_offered w (session_state s) \<and> load_model_button w)"
      using nl by simp
    have off: "load_offered w (session_state s) = (a \<noteq> model_name w)"
      using r n by (auto simp: load_offered_def)
    note facts = interaction_ready_no_fire[OF g r n nf, where env=env]
    have g': "good (session_state s')"
      using inv assms(3) by (simp add: session_inv_interaction)
    have "ready (session_state s')" using facts(4) assms(3) by simp
    from good_ready_attrs(2)[OF g' this]
    obtain img where img: "session_state s' ''current_image'' = Some img" by auto
    have calls: "ApplyChatTemplate (PProcessor pr) (PConfig cf) (ocr_prompt w) 1 \<in> set (calls s') \<and>
                  (\<forall>fp. apply_chat_template env (PProcessor pr) (PConfig cf) (ocr_prompt w) 1
                          = Inr fp \<longrightarrow>
                        Generate (PModel md) (PProcessor pr) fp img 2048 (1 / 10) False
                          \<in> set (calls s'))"
      if "extract_text_button w"
      using facts(5)[OF that h(4,5)] facts(6)[OF that h(4,5,3)] img assms(3) by simp
    from facts(1,2,3,4) off h(1,2) attrs img calls assms(3) show ?thesis by auto
  qed
  from rec part1 part2 show ?thesis by blast
qed

theorem ready_session_keeps_recorded_model_witness:
  "recorded_handle ex_env_msg
     (session_state (interactions ex_env_msg [ex_w, ex_w\<lparr>load_model_button := True\<rparr>] new_session)) \<and>
   model_attrs
     (session_state (interactions ex_env_msg [ex_w, ex_w\<lparr>load_model_button := True\<rparr>] new_session))
     = [Some (PModel (Model 1)), Some (PProcessor (Processor 1)), Some (PConfig (Config 1)),
        Some (PBool True), Some (PStr ''A'')] \<and>
   model_attrs (session_state (interaction ex_env_msg
      (ex_w\<lparr>model_name := ''B'', extract_text_button := True\<rparr>)
      (interactions ex_env_msg [ex_w, ex_w\<lparr>load_model_button := True\<rparr>] new_session)))
     = model_attrs
         (session_state (interactions ex_env_msg [ex_w, ex_w\<lparr>load_model_button := True\<rparr>]
            new_session)) \<and>
   ready (session_state (interaction ex_env_msg
      (ex_w\<lparr>model_name := ''B'', extract_text_button := True\<rparr>)
      (interactions ex_env_msg [ex_w, ex_w\<lparr>load_model_button := True\<rparr>] new_session))) \<and>
   buttons (ui (interaction ex_env_msg
      (ex_w\<lparr>model_name := ''B'', extract_text_button := True\<rparr>)
      (interactions ex_env_msg [ex_w, ex_w\<lparr>load_model_button := True\<rparr>] new_session)))
     = [''Load Model'', ''Extract Text''] \<and>
   Success ''Model ready: A'' \<in> set (ui (interaction ex_env_msg
      (ex_w\<lparr>model_name := ''B'', extract_text_button := True\<rparr>)
      (interactions ex_env_msg [ex_w, ex_w\<lparr>load_model_button := True\<rparr>] new_session))) \<and>
   ApplyChatTemplate (PProcessor (Processor 1)) (PConfig (Config 1)) ''read'' 1
     \<in> set (calls (interaction ex_env_msg
      (ex_w\<lparr>model_name := ''B'', extract_text_button := True\<rparr>)
      (interactions ex_env_msg [ex_w, ex_w\<lparr>load_model_button := True\<rparr>] new_session)))"
proof -
  let ?s = "interactions ex_env_msg [ex_w, ex_w\<lparr>load_model_button := True\<rparr>] new_session"
  let ?wb = "ex_w\<lparr>model_name := ''B'', extract_text_button := True\<rparr>"
  have h: "ready (session_state ?s)" "session_state ?s ''model_name'' = Some (PStr ''A'')"
    by (simp_all add: interactions_def ex_env_msg_def ex_defs script_defs ready_def)
  have w: "\<not> load_model_button ?wb" "extract_text_button ?wb" "model_name ?wb = ''B''"
    "ocr_prompt ?wb = ''read''"
    by (simp_all add: ex_defs)
  have l: "mlx_load ex_env_msg ''A'' = Inr (Model 1, Processor 1)"
    "load_config ex_env_msg ''A'' = Inr (Config 1)"
    by (simp_all add: ex_env_msg_def ex_defs)
  from ready_session_keeps_recorded_model[OF ex_env_msg_failures refl refl,
      of "[ex_w, ex_w\<lparr>load_model_button := True\<rparr>]" ?wb "Model 1" "Processor 1" "Config 1" "''A''"]
    h w l
  show ?thesis by auto
qed

text \<open>
  Claim C1 as the specification states it fails: \<open>ex_loaded\<close> is ready with model \<open>A\<close>;
  with \<open>B\<close> selected (a model that does not even load) the session is still ready with
  \<open>A\<close> recorded, and a click on Extract Text runs the generator on the handle of \<open>A\<close>
  and stores its text.
\<close>

theorem ready_matches_selection_counterexample:
  "ready (session_state ex_loaded) \<and>
   session_state ex_loaded ''model_name'' = Some (PStr ''A'') \<and>
   mlx_load ex_env ''A'' = Inr (Model 1, Processor 1) \<and>
   mlx_load ex_env ''B'' = Inl (Exception ''not found'') \<and>
   model_name (ex_w\<lparr>model_name := ''B''\<rparr>) = ''B'' \<and>
   ready (session_state (interaction ex_env (ex_w\<lparr>model_name := ''B''\<rparr>) ex_loaded)) \<and>
   session_state (interaction ex_env (ex_w\<lparr>model_name := ''B''\<rparr>) ex_loaded) ''model_name''
     = Some (PStr ''A'') \<and>
   session_state (interaction ex_env (ex_w\<lparr>model_name := ''B''\<rparr>) ex_loaded) ''model''
     = Some (PModel (Model 1)) \<and>
   buttons (ui (interaction ex_env (ex_w\<lparr>model_name := ''B''\<rparr>) ex_loaded))
     = [''Load Model'', ''Extract Text''] \<and>
   calls (interaction ex_env (ex_w\<lparr>model_name := ''B'', extract_text_button := True\<rparr>) ex_loaded)
     = [ConvertFromPath 1 200,
        ApplyChatTemplate (PProcessor (Processor 1)) (PConfig (Config 1)) ''read'' 1,
        Generate (PModel (Model 1)) (PProcessor (Processor 1)) ''read'' (PImage (Image 2))
          2048 (1 / 10) False] \<and>
   session_state
     (interaction ex_env (ex_w\<lparr>model_name := ''B'', extract_text_button := True\<rparr>) ex_loaded)
     ''output_text'' = Some (PStr ''hello'')"
  by (simp add: ex_defs script_defs ready_def)

text \<open>
  Claim C3, as the code has it. A load that fails with a non-empty message is reported
  as \<^verbatim>\<open>Failed to load model: <message>\<close> and leaves the model attributes of the session
  exactly as they were: a session that was not ready stays not ready, with nothing of
  the failed load retained, and a session that was ready stays ready with the handle and
  the identifier it had.
\<close>

theorem failed_load_keeps_session:
  assumes "session_inv (session_state s)" and "session_state s ''current_image'' \<noteq> None"
    and "load_offered w (session_state s)" and "load_model_button w"
    and "mlx_load env (model_name w) = Inl e \<or>
         (\<exists>h. mlx_load env (model_name w) = Inr h \<and> load_config env (model_name w) = Inl e)"
    and "str e \<noteq> []"
    and "s' = interaction env w s"
  shows "Error (''Failed to load model: '' @ str e) \<in> set (ui s') \<and>
         model_attrs (session_state s') = model_attrs (session_state s) \<and>
         ready (session_state s') = ready (session_state s)"
proof -
  have g: "good (session_state s)" by (rule inv_image_good[OF assms(1,2)])
  obtain cs where lvm: "load_vision_model env (model_name w)
                          = ((PNone, PNone, PNone, PStr (str e)), cs)"
    using load_vision_model_fail[OF assms(5)] by blast
  have t: "truthy (PStr (str e))" using assms(6) by simp
  note facts = interaction_load_error[OF g assms(2,3,4) lvm t]
  have "model_attrs (session_state s') = model_attrs (session_state s)"
    using facts(2) assms(7) by (simp add: model_attrs_def)
  with facts(1) assms(7) show ?thesis
    by (simp add: model_attrs_def ready_def)
qed

theorem failed_load_keeps_session_witness:
  "Error ''Failed to load model: not found''
     \<in> set (ui (interaction ex_env (ex_w\<lparr>model_name := ''B'', load_model_button := True\<rparr>)
                  ex_uploaded)) \<and>
   model_attrs (session_state
       (interaction ex_env (ex_w\<lparr>model_name := ''B'', load_model_button := True\<rparr>) ex_uploaded))
     = model_attrs (session_state ex_uploaded) \<and>
   \<not> ready (session_state
       (interaction ex_env (ex_w\<lparr>model_name := ''B'', load_model_button := True\<rparr>) ex_uploaded))"
proof -
  let ?w = "ex_w\<lparr>model_name := ''B'', load_model_button := True\<rparr>"
  have h: "session_state ex_uploaded ''current_image'' \<noteq> None"
    "load_offered ?w (session_state ex_uploaded)" "load_model_button ?w"
    "mlx_load ex_env (model_name ?w) = Inl (Exception ''not found'') \<or>
       (\<exists>h. mlx_load ex_env (model_name ?w) = Inr h \<and>
            load_config ex_env (model_name ?w) = Inl (Exception ''not found''))"
    "str (Exception ''not found'') \<noteq> []"
    by (simp_all add: ex_defs load_offered_def ready_def)
  have nr: "\<not> ready (session_state ex_uploaded)" by (simp add: ex_defs ready_def)
  from failed_load_keeps_session[OF ex_session_inv(2) h refl] nr
  show ?thesis by simp
qed

text \<open>
  Claim C3 as the specification states it fails: \<open>ex_loaded\<close> is ready with model \<open>A\<close>;
  the load of \<open>B\<close> fails and is reported, and the session is not left in the not loaded
  state: it is still ready, with the handle of \<open>A\<close>.
\<close>

theorem failed_load_not_loaded_counterexample:
  "ready (session_state ex_loaded) \<and>
   mlx_load ex_env ''B'' = Inl (Exception ''not found'') \<and>
   model_name (ex_w\<lparr>model_name := ''B'', load_model_button := True\<rparr>) = ''B'' \<and>
   errors (ui (interaction ex_env (ex_w\<lparr>model_name := ''B'', load_model_button := True\<rparr>)
                 ex_loaded)) = [''Failed to load model: not found''] \<and>
   ready (session_state
     (interaction ex_env (ex_w\<lparr>model_name := ''B'', load_model_button := True\<rparr>) ex_loaded)) \<and>
   session_state
     (interaction ex_env (ex_w\<lparr>model_name := ''B'', load_model_button := True\<rparr>) ex_loaded)
     ''model'' = Some (PModel (Model 1)) \<and>
   session_state
     (interaction ex_env (ex_w\<lparr>model_name := ''B'', load_model_button := True\<rparr>) ex_loaded)
     ''model_name'' = Some (PStr ''A'') \<and>
   buttons (ui (interaction ex_env (ex_w\<lparr>model_name := ''B'', load_model_button := True\<rparr>)
                  ex_loaded)) = [''Load Model'', ''Extract Text'']"
  by (simp add: ex_defs script_defs ready_def)

text \<open>
  Claim C5 does not hold of the load action. \<^verbatim>\<open>load_vision_model\<close> returns \<^verbatim>\<open>str(e)\<close>
  as its error and line 162 tests \<^verbatim>\<open>if error:\<close>, so an exception whose message is empty
  counts as no error. In the session \<open>ex_uploaded\<close>, which is not ready, the load of
  model \<open>E\<close> raises such an exception: no error is reported, the session is marked
  ready with \<^verbatim>\<open>None\<close> as model, processor and configuration and \<open>E\<close> as model name,
  and after the rerun the page says that the model is ready.
\<close>

theorem load_error_with_empty_message:
  "\<not> ready (session_state ex_uploaded) \<and>
   mlx_load ex_env ''E'' = Inl (Exception []) \<and>
   calls (interaction ex_env (ex_w\<lparr>model_name := ''E'', load_model_button := True\<rparr>) ex_uploaded)
     = [ConvertFromPath 1 200, MlxLoad ''E'', ConvertFromPath 1 200] \<and>
   errors (ui (interaction ex_env (ex_w\<lparr>model_name := ''E'', load_model_button := True\<rparr>)
                 ex_uploaded)) = [] \<and>
   model_attrs (session_state
     (interaction ex_env (ex_w\<lparr>model_name := ''E'', load_model_button := True\<rparr>) ex_uploaded))
     = [Some PNone, Some PNone, Some PNone, Some (PBool True), Some (PStr ''E'')] \<and>
   ready (session_state
     (interaction ex_env (ex_w\<lparr>model_name := ''E'', load_model_button := True\<rparr>) ex_uploaded)) \<and>
   drop 6 (ui (interaction ex_env (ex_w\<lparr>model_name := ''E'', load_model_button := True\<rparr>)
                 ex_uploaded)) = [Success ''Model ready: E'', Button ''Extract Text'']"
  by (simp add: ex_defs script_defs ready_def model_attrs_def)

end
